theory Spec2Isabelle
  imports Complex_Main "HOL-Library.Sublist"
begin

section \<open>Exceptions as values\<close>

text \<open>
  A JavaScript \<open>Error\<close> carries a message; \<open>NotAnError\<close> stands for a thrown value
  that is not an instance of \<open>Error\<close>. A statement that may throw returns
  \<open>js_error + 'a\<close>: \<open>Inl\<close> is the thrown value, \<open>Inr\<close> the normal result.
\<close>

datatype js_error = JsError string | NotAnError

section \<open>The centralized logger (src/lib/utils/logger.ts)\<close>

datatype LogLevel = Debug | Info | Warn | Error | Quiet

fun LEVEL_PRIORITY :: "LogLevel \<Rightarrow> nat" where
  "LEVEL_PRIORITY Debug = 0"
| "LEVEL_PRIORITY Info = 1"
| "LEVEL_PRIORITY Warn = 2"
| "LEVEL_PRIORITY Error = 3"
| "LEVEL_PRIORITY Quiet = 4"

text \<open>
  \<open>LogMetadata\<close> is an object with string keys; its values are modelled as already
  serialisable text, so \<open>JSON.stringify\<close> of it cannot throw.
\<close>

type_synonym LogMetadata = "(string \<times> string) list"

record RMABLogger =
  logContext :: string
  jobId :: "string option"

definition create :: "string \<Rightarrow> RMABLogger" where
  "create c = \<lparr>logContext = c, jobId = None\<rparr>"

definition forJob :: "string option \<Rightarrow> string \<Rightarrow> RMABLogger" where
  "forJob j c = \<lparr>logContext = c, jobId = j\<rparr>"

definition child :: "RMABLogger \<Rightarrow> string \<Rightarrow> RMABLogger" where
  "child lg subContext = \<lparr>logContext = logContext lg @ ''.'' @ subContext, jobId = jobId lg\<rparr>"

text \<open>One row of the \<open>job_events\<close> table, as \<open>persistToDatabase\<close> builds it.\<close>

record JobEvent =
  ev_jobId :: string
  ev_level :: LogLevel
  ev_context :: string
  ev_message :: string
  ev_metadata :: "LogMetadata option"

datatype ConsoleCall =
  ConsoleDebug string
| ConsoleLog string
| ConsoleWarn string
| ConsoleError string
| ConsoleLogJson LogMetadata

text \<open>
  What a logging call can touch: the console, the \<open>job_events\<close> table, and, kept
  abstract in \<open>pipeline\<close>, every other piece of persisted state (jobs, requests).
\<close>

record 'p LogWorld =
  pipeline :: 'p
  job_events :: "JobEvent list"
  console :: "ConsoleCall list"

text \<open>
  \<open>prisma.jobEvent.create\<close> is the database's insert: its promise either yields the
  table with the row added or is rejected. Its behaviour is a parameter, so that every way
  of failing is covered.
\<close>

type_synonym jobEvent_create = "JobEvent \<Rightarrow> JobEvent list \<Rightarrow> js_error + JobEvent list"

fun levelUpper :: "LogLevel \<Rightarrow> string" where
  "levelUpper Debug = ''DEBUG''"
| "levelUpper Info = ''INFO''"
| "levelUpper Warn = ''WARN''"
| "levelUpper Error = ''ERROR''"
| "levelUpper Quiet = ''QUIET''"

definition formattedMessage :: "RMABLogger \<Rightarrow> LogLevel \<Rightarrow> string \<Rightarrow> string" where
  "formattedMessage lg level message =
     ''['' @ levelUpper level @ ''] ['' @ logContext lg @ ''] '' @ message"

text \<open>The \<open>switch (level)\<close> of \<open>log\<close>; it has no case for \<open>quiet\<close>.\<close>

fun consoleOutput :: "LogLevel \<Rightarrow> string \<Rightarrow> ConsoleCall list" where
  "consoleOutput Debug s = [ConsoleDebug s]"
| "consoleOutput Info s = [ConsoleLog s]"
| "consoleOutput Warn s = [ConsoleWarn s]"
| "consoleOutput Error s = [ConsoleError s]"
| "consoleOutput Quiet s = []"

text \<open>
  \<open>persistToDatabase\<close>: the insert is started and its rejection is handled by
  \<open>.catch(() => {})\<close>, so a rejected insert leaves the world as it was and the call
  returns. The promise is not awaited in the source; the model lets it settle before the
  call returns. A missing \<open>jobId\<close> (the source asserts \<open>this.jobId!\<close>) is an
  invalid row, which the database rejects.
\<close>

definition jobEventData ::
  "string \<Rightarrow> RMABLogger \<Rightarrow> LogLevel \<Rightarrow> string \<Rightarrow> LogMetadata option \<Rightarrow> JobEvent" where
  "jobEventData j lg level message metadata =
     \<lparr>ev_jobId = j, ev_level = level, ev_context = logContext lg,
      ev_message = message, ev_metadata = metadata\<rparr>"

definition persistToDatabase ::
  "jobEvent_create \<Rightarrow> RMABLogger \<Rightarrow> LogLevel \<Rightarrow> string \<Rightarrow> LogMetadata option \<Rightarrow>
     'p LogWorld \<Rightarrow> js_error + 'p LogWorld" where
  "persistToDatabase db lg level message metadata w =
     (case jobId lg of
        None \<Rightarrow> Inr w
      | Some j \<Rightarrow>
          (case db (jobEventData j lg level message metadata) (job_events w) of
             Inr evs \<Rightarrow> Inr (w\<lparr>job_events := evs\<rparr>)
           | Inl e \<Rightarrow> Inr w))"

text \<open>
  \<open>this.jobId &&\<close> is JavaScript truthiness: \<open>undefined\<close> and the empty string are
  both false.
\<close>

definition jobIdTruthy :: "RMABLogger \<Rightarrow> bool" where
  "jobIdTruthy lg = (case jobId lg of None \<Rightarrow> False | Some j \<Rightarrow> j \<noteq> [])"

text \<open>
  \<open>log\<close> (named \<open>logger_log\<close> here, since \<open>log\<close> is HOL's logarithm), the single
  check point. \<open>configured\<close> is \<open>CONFIGURED_LOG_LEVEL\<close>, read once
  from the environment when the module loads.
\<close>

definition logger_log ::
  "LogLevel \<Rightarrow> jobEvent_create \<Rightarrow> RMABLogger \<Rightarrow> LogLevel \<Rightarrow> string \<Rightarrow> LogMetadata option \<Rightarrow>
     'p LogWorld \<Rightarrow> js_error + 'p LogWorld" where
  "logger_log configured db lg level message metadata w =
     (if LEVEL_PRIORITY level < LEVEL_PRIORITY configured then Inr w
      else
        let w1 = w\<lparr>console := console w @ consoleOutput level (formattedMessage lg level message)\<rparr>;
            w2 = (case metadata of
                    None \<Rightarrow> w1
                  | Some m \<Rightarrow>
                      if length m > 0 then w1\<lparr>console := console w1 @ [ConsoleLogJson m]\<rparr>
                      else w1)
        in if jobIdTruthy lg \<and> level \<noteq> Debug
           then persistToDatabase db lg level message metadata w2
           else Inr w2)"

definition debug ::
  "LogLevel \<Rightarrow> jobEvent_create \<Rightarrow> RMABLogger \<Rightarrow> string \<Rightarrow> LogMetadata option \<Rightarrow>
     'p LogWorld \<Rightarrow> js_error + 'p LogWorld" where
  "debug configured db lg message metadata w = logger_log configured db lg Debug message metadata w"

definition info ::
  "LogLevel \<Rightarrow> jobEvent_create \<Rightarrow> RMABLogger \<Rightarrow> string \<Rightarrow> LogMetadata option \<Rightarrow>
     'p LogWorld \<Rightarrow> js_error + 'p LogWorld" where
  "info configured db lg message metadata w = logger_log configured db lg Info message metadata w"

definition warn ::
  "LogLevel \<Rightarrow> jobEvent_create \<Rightarrow> RMABLogger \<Rightarrow> string \<Rightarrow> LogMetadata option \<Rightarrow>
     'p LogWorld \<Rightarrow> js_error + 'p LogWorld" where
  "warn configured db lg message metadata w = logger_log configured db lg Warn message metadata w"

definition error ::
  "LogLevel \<Rightarrow> jobEvent_create \<Rightarrow> RMABLogger \<Rightarrow> string \<Rightarrow> LogMetadata option \<Rightarrow>
     'p LogWorld \<Rightarrow> js_error + 'p LogWorld" where
  "error configured db lg message metadata w = logger_log configured db lg Error message metadata w"

section \<open>Node's \<open>path\<close> module (POSIX variant)\<close>

text \<open>
  \<open>PathMapper\<close> calls \<open>path.normalize\<close> and \<open>path.join\<close> of the Node.js standard
  library, which is not part of the repository. They are modelled after Node's POSIX
  implementation (the application runs on Linux): the path is cut at \<open>/\<close>, empty and
  \<open>.\<close> segments are dropped, \<open>..\<close> removes the segment before it, or is kept when the
  path is relative and there is nothing left to remove.
\<close>

fun splitOn :: "char \<Rightarrow> string \<Rightarrow> string list" where
  "splitOn c [] = [[]]"
| "splitOn c (x # xs) =
     (if x = c then [] # splitOn c xs
      else (case splitOn c xs of
              [] \<Rightarrow> [[x]]
            | s # ss \<Rightarrow> (x # s) # ss))"

fun joinWith :: "string \<Rightarrow> string list \<Rightarrow> string" where
  "joinWith sep [] = []"
| "joinWith sep [s] = s"
| "joinWith sep (s # t # ss) = s @ sep @ joinWith sep (t # ss)"

fun normalizeSegments :: "bool \<Rightarrow> string list \<Rightarrow> string list \<Rightarrow> string list" where
  "normalizeSegments allowAboveRoot res [] = res"
| "normalizeSegments allowAboveRoot res (seg # segs) =
     (if seg = [] \<or> seg = ''.'' then normalizeSegments allowAboveRoot res segs
      else if seg = ''..'' then
        (if res \<noteq> [] \<and> last res \<noteq> ''..''
         then normalizeSegments allowAboveRoot (butlast res) segs
         else if allowAboveRoot then normalizeSegments allowAboveRoot (res @ [''..'']) segs
         else normalizeSegments allowAboveRoot res segs)
      else normalizeSegments allowAboveRoot (res @ [seg]) segs)"

definition normalizeString :: "string \<Rightarrow> bool \<Rightarrow> string" where
  "normalizeString p allowAboveRoot =
     joinWith ''/'' (normalizeSegments allowAboveRoot [] (splitOn (CHR ''/'') p))"

definition path_normalize :: "string \<Rightarrow> string" where
  "path_normalize p =
     (if p = [] then ''.''
      else
        let isAbsolute = (hd p = CHR ''/'');
            trailingSeparator = (last p = CHR ''/'');
            q = normalizeString p (\<not> isAbsolute)
        in if q = [] then (if isAbsolute then ''/'' else if trailingSeparator then ''./'' else ''.'')
           else
             let q' = (if trailingSeparator then q @ ''/'' else q)
             in if isAbsolute then ''/'' @ q' else q')"

definition path_join :: "string \<Rightarrow> string \<Rightarrow> string" where
  "path_join a b =
     (let joined = joinWith ''/'' (filter (\<lambda>arg. arg \<noteq> []) [a, b])
      in if joined = [] then ''.'' else path_normalize joined)"

section \<open>The path mapper (src/lib/utils/path-mapper.ts)\<close>

record PathMappingConfig =
  enabled :: bool
  remotePath :: string
  localPath :: string

text \<open>\<open>filePath.replace(/\\/g, '/')\<close>: every backslash becomes a forward slash.\<close>

definition backslashesToSlashes :: "string \<Rightarrow> string" where
  "backslashesToSlashes p = map (\<lambda>c. if c = CHR 0x5C then CHR ''/'' else c) p"

definition normalizePath :: "string \<Rightarrow> string" where
  "normalizePath filePath =
     (let normalized = backslashesToSlashes (path_normalize (backslashesToSlashes filePath))
      in if length normalized > 1 \<and> last normalized = CHR ''/''
         then butlast normalized
         else normalized)"

definition transform :: "string \<Rightarrow> PathMappingConfig \<Rightarrow> string" where
  "transform qbittorrentPath config =
     (if \<not> enabled config then qbittorrentPath
      else if qbittorrentPath = [] \<or> remotePath config = [] \<or> localPath config = []
      then qbittorrentPath
      else
        let normalizedRemote = normalizePath (remotePath config);
            normalizedLocal = normalizePath (localPath config);
            normalizedQbPath = normalizePath qbittorrentPath
        in if \<not> prefix normalizedRemote normalizedQbPath then qbittorrentPath
           else
             let relativePath = drop (length normalizedRemote) normalizedQbPath
             in path_join normalizedLocal relativePath)"

text \<open>
  Paths that are already in normal form, used to state when the rewrite is a plain
  replacement of the prefix: an absolute path is given by its segments, none of which is
  empty, \<open>.\<close> or \<open>..\<close> or contains a slash or a backslash. A path other than the root
  \<open>/\<close> has at least one segment; the root itself is not of this form.
\<close>

definition plainSegment :: "string \<Rightarrow> bool" where
  "plainSegment s \<longleftrightarrow>
     s \<noteq> [] \<and> s \<noteq> ''.'' \<and> s \<noteq> ''..'' \<and> CHR ''/'' \<notin> set s \<and> CHR 0x5C \<notin> set s"

definition absolutePath :: "string list \<Rightarrow> string" where
  "absolutePath segs = concat (map (\<lambda>s. CHR ''/'' # s) segs)"

section \<open>Requests and the persisted store\<close>

text \<open>
  The database is the model's state. A table is the list of its rows; times are
  milliseconds as natural numbers. The Prisma schema is not among the sources, so a row
  holds the fields the processors and routes read or write. \<open>req_audiobook\<close> is the
  required relation that \<open>include: { audiobook: true }\<close> loads with the row.
\<close>

record Audiobook =
  ab_id :: string
  ab_title :: string
  ab_author :: string
  ab_audibleAsin :: "string option"

record Request =
  req_id :: string
  userId :: string
  audiobookId :: string
  req_audiobook :: Audiobook
  req_type :: string
  parentRequestId :: "string option"
  status :: string
  progress :: nat
  searchAttempts :: nat
  lastSearchAt :: "nat option"
  errorMessage :: "string option"
  updatedAt :: nat
  deletedAt :: "nat option"

text \<open>The job payload's description of the book: \<open>{ id, title, author, asin? }\<close>.\<close>

record AudiobookRef =
  ref_id :: string
  ref_title :: string
  ref_author :: string
  ref_asin :: "string option"

text \<open>
  A search hit and its ranked form (\<open>interface RankedTorrent extends TorrentResult\<close>);
  \<open>score\<close> is the base score.
\<close>

record TorrentResult =
  title :: string
  indexer :: string
  indexerId :: "nat option"
  seeders :: "nat option"
  format :: "string option"
  sizeBytes :: nat

record RankedTorrent = TorrentResult +
  score :: real
  bonusPoints :: real
  finalScore :: real

datatype QueuedJob =
  DownloadJob string AudiobookRef RankedTorrent
| SearchEbookJob string AudiobookRef

record World =
  requests :: "Request list"
  configuration :: "string \<Rightarrow> string option"
  queue :: "QueuedJob list"

text \<open>
  \<open>prisma.request.findUnique({ where: { id } })\<close> and
  \<open>prisma.request.update({ where: { id }, data })\<close>. Updating a row that does not exist
  throws; other database faults (a lost connection) are outside the model.
\<close>

definition request_findUnique :: "string \<Rightarrow> Request list \<Rightarrow> Request option" where
  "request_findUnique rid tbl = find (\<lambda>r. req_id r = rid) tbl"

definition request_update ::
  "string \<Rightarrow> (Request \<Rightarrow> Request) \<Rightarrow> Request list \<Rightarrow> js_error + Request list" where
  "request_update rid f tbl =
     (case request_findUnique rid tbl of
        None \<Rightarrow> Inl (JsError ''Record to update not found.'')
      | Some r \<Rightarrow> Inr (map (\<lambda>r. if req_id r = rid then f r else r) tbl))"

section \<open>The search job processor (src/lib/processors/search-indexers.processor.ts)\<close>

record SearchIndexersPayload =
  p_requestId :: string
  p_audiobook :: AudiobookRef
  p_jobId :: "string option"

record IndexerConfig =
  ix_id :: nat
  ix_priority :: "nat option"

text \<open>
  A flag rule of \<open>indexer_flag_config\<close>; the processor only hands the list to the ranker.
\<close>

record FlagConfig =
  flag_name :: string
  flag_modifier :: real

record SearchOptions =
  category :: nat
  minSeeders :: nat
  maxResults :: nat
  indexerIds :: "nat list"

text \<open>
  What the processor calls outside itself and outside the store: \<open>JSON.parse\<close> of the two
  configuration strings (decoded to their shape; a malformed string throws),
  \<open>getProwlarrService\<close> (\<open>Some e\<close>: it throws \<open>e\<close>), the external search, the ranking
  function (pure, by section 4.3 of the spec), and the clock. One reading of the clock
  stands for the \<open>new Date()\<close> of every update of an execution.
\<close>

record SearchEnv =
  parseIndexers :: "string \<Rightarrow> js_error + IndexerConfig list"
  parseFlagConfigs :: "string \<Rightarrow> js_error + FlagConfig list"
  getProwlarrService :: "js_error option"
  prowlarr_search :: "string \<Rightarrow> SearchOptions \<Rightarrow> js_error + TorrentResult list"
  rankTorrents ::
    "TorrentResult list \<Rightarrow> string \<times> string \<Rightarrow> (nat \<Rightarrow> nat option) \<Rightarrow> FlagConfig list \<Rightarrow>
       RankedTorrent list"
  now :: nat

record SelectedTorrent =
  sel_title :: string
  sel_score :: real
  sel_seeders :: nat
  sel_format :: "string option"

record SearchOutcome =
  out_success :: bool
  out_message :: string
  out_requestId :: string
  resultsCount :: "nat option"
  selectedTorrent :: "SelectedTorrent option"

text \<open>
  The dual threshold filter of lines 112 to 114, and the count of lines 116 to 118, which
  the processor only logs.
\<close>

definition filteredResults :: "RankedTorrent list \<Rightarrow> RankedTorrent list" where
  "filteredResults rankedResults =
     filter (\<lambda>result. score result \<ge> 50 \<and> finalScore result \<ge> 50) rankedResults"

definition disqualifiedByNegativeBonus :: "RankedTorrent list \<Rightarrow> nat" where
  "disqualifiedByNegativeBonus rankedResults =
     length (filter (\<lambda>result. score result \<ge> 50 \<and> finalScore result < 50) rankedResults)"

text \<open>
  \<open>new Map(entries)\<close>: a later entry for the same key replaces an earlier one.
\<close>

definition indexerPriorities :: "IndexerConfig list \<Rightarrow> nat \<Rightarrow> nat option" where
  "indexerPriorities indexersConfig =
     map_of (rev (map (\<lambda>indexer. (ix_id indexer,
                                   case ix_priority indexer of None \<Rightarrow> 10 | Some pr \<Rightarrow> pr))
                      indexersConfig))"

definition flagConfigs :: "SearchEnv \<Rightarrow> World \<Rightarrow> js_error + FlagConfig list" where
  "flagConfigs env w =
     (case configuration w ''indexer_flag_config'' of
        None \<Rightarrow> Inr []
      | Some flagConfigStr \<Rightarrow>
          if flagConfigStr = [] then Inr [] else parseFlagConfigs env flagConfigStr)"

text \<open>
  The \<open>data\<close> of the three updates: on entry, on no (qualifying) result, and in the
  \<open>catch\<close>, whose message is the error's or, for a thrown value that is no
  \<open>Error\<close>, a fixed text.
\<close>

definition markSearching :: "SearchEnv \<Rightarrow> Request \<Rightarrow> Request" where
  "markSearching env r =
     r\<lparr>status := ''searching'', searchAttempts := searchAttempts r + 1, updatedAt := now env\<rparr>"

definition catchMessage :: "js_error \<Rightarrow> string" where
  "catchMessage e = (case e of JsError m \<Rightarrow> m | NotAnError \<Rightarrow> ''Unknown error during search'')"

definition markFailed :: "SearchEnv \<Rightarrow> js_error \<Rightarrow> Request \<Rightarrow> Request" where
  "markFailed env e r =
     r\<lparr>status := ''failed'', errorMessage := Some (catchMessage e), updatedAt := now env\<rparr>"

definition markAwaitingSearch :: "SearchEnv \<Rightarrow> string \<Rightarrow> Request \<Rightarrow> Request" where
  "markAwaitingSearch env msg r =
     r\<lparr>status := ''awaiting_search'', errorMessage := Some msg,
       lastSearchAt := Some (now env), updatedAt := now env\<rparr>"

text \<open>Decimal digits of a number, as a template literal prints it.\<close>

fun showNat :: "nat \<Rightarrow> string" where
  "showNat n =
     (if n < 10 then [char_of (48 + n)]
      else showNat (n div 10) @ [char_of (48 + n mod 10)])"

declare showNat.simps [simp del]

text \<open>
  The statements after the search has returned (lines 77 to 203); an empty
  \<open>filteredResults\<close> is the list with \<open>length === 0\<close>, and \<open>bestResult\<close> is its
  first element otherwise. The calls of the
  logger are left out here and in the rest of the processor: by the logger's properties
  they return normally and touch only the console and the job-event table, which the
  processor never reads.
\<close>

definition afterSearch ::
  "SearchEnv \<Rightarrow> SearchIndexersPayload \<Rightarrow> IndexerConfig list \<Rightarrow> FlagConfig list \<Rightarrow>
     TorrentResult list \<Rightarrow> World \<Rightarrow> (js_error + SearchOutcome) \<times> World" where
  "afterSearch env payload indexersConfig flags searchResults w =
     (if length searchResults = 0 then
        (case request_update (p_requestId payload)
                (markAwaitingSearch env ''No torrents found. Will retry automatically.'')
                (requests w) of
           Inl e \<Rightarrow> (Inl e, w)
         | Inr tbl \<Rightarrow>
             (Inr \<lparr>out_success = False, out_message = ''No torrents found, queued for re-search'',
                   out_requestId = p_requestId payload, resultsCount = None,
                   selectedTorrent = None\<rparr>,
              w\<lparr>requests := tbl\<rparr>))
      else
        let rankedResults =
              rankTorrents env searchResults
                (ref_title (p_audiobook payload), ref_author (p_audiobook payload))
                (indexerPriorities indexersConfig) flags;
            filtered = filteredResults rankedResults
        in (case filtered of
              [] \<Rightarrow>
                (case request_update (p_requestId payload)
                        (markAwaitingSearch env ''No quality matches found. Will retry automatically.'')
                        (requests w) of
                   Inl e \<Rightarrow> (Inl e, w)
                 | Inr tbl \<Rightarrow>
                     (Inr \<lparr>out_success = False,
                           out_message = ''No quality matches found, queued for re-search'',
                           out_requestId = p_requestId payload, resultsCount = None,
                           selectedTorrent = None\<rparr>,
                      w\<lparr>requests := tbl\<rparr>))
            | bestResult # rest \<Rightarrow>
                (Inr \<lparr>out_success = True,
                      out_message = ''Found '' @ showNat (length filtered)
                                    @ '' quality matches, selected best torrent'',
                      out_requestId = p_requestId payload,
                      resultsCount = Some (length filtered),
                      selectedTorrent =
                        Some \<lparr>sel_title = title bestResult, sel_score = score bestResult,
                              sel_seeders = (case seeders bestResult of None \<Rightarrow> 0 | Some n \<Rightarrow> n),
                              sel_format = format bestResult\<rparr>\<rparr>,
                 w\<lparr>queue := queue w @
                      [DownloadJob (p_requestId payload)
                         \<lparr>ref_id = ref_id (p_audiobook payload),
                          ref_title = ref_title (p_audiobook payload),
                          ref_author = ref_author (p_audiobook payload),
                          ref_asin = None\<rparr>
                         bestResult]\<rparr>)))"

text \<open>
  The body of the \<open>try\<close> block (lines 24 to 203). \<open>configService.get\<close> reads the
  configuration table; \<open>!indexersConfigStr\<close> holds for a missing value and for the empty
  string.
\<close>

definition tryBlock ::
  "SearchEnv \<Rightarrow> SearchIndexersPayload \<Rightarrow> World \<Rightarrow> (js_error + SearchOutcome) \<times> World" where
  "tryBlock env payload w =
     (case request_update (p_requestId payload) (markSearching env) (requests w) of
        Inl e \<Rightarrow> (Inl e, w)
      | Inr tbl \<Rightarrow>
          let w1 = w\<lparr>requests := tbl\<rparr>
          in (case configuration w1 ''prowlarr_indexers'' of
                None \<Rightarrow>
                  (Inl (JsError ''No indexers configured. Please configure indexers in settings.''), w1)
              | Some indexersConfigStr \<Rightarrow>
                  if indexersConfigStr = [] then
                    (Inl (JsError ''No indexers configured. Please configure indexers in settings.''), w1)
                  else
                    (case parseIndexers env indexersConfigStr of
                       Inl e \<Rightarrow> (Inl e, w1)
                     | Inr indexersConfig \<Rightarrow>
                         let enabledIndexerIds = map ix_id indexersConfig
                         in if length enabledIndexerIds = 0 then
                              (Inl (JsError ''No indexers enabled. Please enable at least one indexer in settings.''), w1)
                            else
                              (case flagConfigs env w1 of
                                 Inl e \<Rightarrow> (Inl e, w1)
                               | Inr flags \<Rightarrow>
                                   (case getProwlarrService env of
                                      Some e \<Rightarrow> (Inl e, w1)
                                    | None \<Rightarrow>
                                        (case prowlarr_search env (ref_title (p_audiobook payload))
                                                \<lparr>category = 3030, minSeeders = 1, maxResults = 100,
                                                 indexerIds = enabledIndexerIds\<rparr> of
                                           Inl e \<Rightarrow> (Inl e, w1)
                                         | Inr searchResults \<Rightarrow>
                                             afterSearch env payload indexersConfig flags
                                               searchResults w1))))))"

text \<open>
  \<open>processSearchIndexers\<close>: the \<open>try\<close> block and its \<open>catch\<close>, which marks the request
  failed with the error's message and throws the error again. An update that throws
  inside the \<open>catch\<close> replaces the error.
\<close>

definition processSearchIndexers ::
  "SearchEnv \<Rightarrow> SearchIndexersPayload \<Rightarrow> World \<Rightarrow> (js_error + SearchOutcome) \<times> World" where
  "processSearchIndexers env payload w =
     (case tryBlock env payload w of
        (Inr outcome, w') \<Rightarrow> (Inr outcome, w')
      | (Inl e, w') \<Rightarrow>
          (case request_update (p_requestId payload) (markFailed env e) (requests w') of
             Inl e' \<Rightarrow> (Inl e', w')
           | Inr tbl \<Rightarrow> (Inl e, w'\<lparr>requests := tbl\<rparr>)))"

section \<open>The job queue boundary\<close>

text \<open>
  Modelled from the spec: the job queue service (src/lib/services/job-queue.service.ts) is
  not among the sources. Section 4.1 of the spec gives its contract: \<open>complete\<close> sets the
  status to completed and stores the result; \<open>fail\<close> increments \<open>attempts\<close> and, while
  \<open>attempts < maxAttempts\<close>, puts the job back to queued, otherwise marks it failed for
  good and stores the error message; a processor that throws is caught at the boundary
  and routed to \<open>fail\<close>.
\<close>

datatype JobStatus = Queued | Running | Completed | Failed

record 'r Job =
  job_status :: JobStatus
  attempts :: nat
  maxAttempts :: nat
  job_result :: "'r option"
  job_errorMessage :: "string option"

text \<open>
  Modelled from the spec: \<open>complete\<close>, \<open>fail\<close> and the routing of a processor's outcome,
  section 4.1 (the job queue service's source is missing).
\<close>

definition complete :: "'r Job \<Rightarrow> 'r \<Rightarrow> 'r Job" where
  "complete job res = job\<lparr>job_status := Completed, job_result := Some res\<rparr>"

definition fail :: "'r Job \<Rightarrow> js_error \<Rightarrow> 'r Job" where
  "fail job e =
     (let n = attempts job + 1
      in if n < maxAttempts job then job\<lparr>attempts := n, job_status := Queued\<rparr>
         else job\<lparr>attempts := n, job_status := Failed,
                  job_errorMessage := Some (case e of JsError m \<Rightarrow> m | NotAnError \<Rightarrow> [])\<rparr>)"

definition settle :: "'r Job \<Rightarrow> js_error + 'r \<Rightarrow> 'r Job" where
  "settle job outcome = (case outcome of Inr res \<Rightarrow> complete job res | Inl e \<Rightarrow> fail job e)"

section \<open>The fetch-ebook route (POST, src/unnamed/part_003)\<close>

datatype ResponseBody =
  ErrorBody string
| ResultBody bool string string

record Response =
  http_status :: nat
  body :: ResponseBody

definition json :: "ResponseBody \<Rightarrow> nat \<Rightarrow> Response" where
  "json b st = \<lparr>http_status = st, body = b\<rparr>"

text \<open>
  \<open>prisma.request.findFirst\<close> for a parent's ebook request that is not deleted, and
  \<open>prisma.request.create\<close>. The database generates the new row's id (\<open>newId\<close>) and fills the
  columns the route does not give with their defaults.
\<close>

definition findExistingEbookRequest :: "string \<Rightarrow> Request list \<Rightarrow> Request option" where
  "findExistingEbookRequest parent tbl =
     find (\<lambda>r. parentRequestId r = Some parent \<and> req_type r = ''ebook'' \<and> deletedAt r = None) tbl"

record RouteEnv =
  newId :: string
  clock :: nat

definition newEbookRequest :: "RouteEnv \<Rightarrow> Request \<Rightarrow> string \<Rightarrow> Request" where
  "newEbookRequest env parentRequest parent =
     \<lparr>req_id = newId env, userId = userId parentRequest,
      audiobookId = audiobookId parentRequest, req_audiobook = req_audiobook parentRequest,
      req_type = ''ebook'', parentRequestId = Some parent, status = ''pending'',
      progress = 0, searchAttempts = 0, lastSearchAt = None, errorMessage = None,
      updatedAt = clock env, deletedAt = None\<rparr>"

definition searchEbookJob :: "string \<Rightarrow> Request \<Rightarrow> QueuedJob" where
  "searchEbookJob rid parentRequest =
     SearchEbookJob rid
       \<lparr>ref_id = ab_id (req_audiobook parentRequest),
        ref_title = ab_title (req_audiobook parentRequest),
        ref_author = ab_author (req_audiobook parentRequest),
        ref_asin = (case ab_audibleAsin (req_audiobook parentRequest) of
                      None \<Rightarrow> None
                    | Some a \<Rightarrow> if a = [] then None else Some a)\<rparr>"

definition resetForRetry :: "RouteEnv \<Rightarrow> Request \<Rightarrow> Request" where
  "resetForRetry env r =
     r\<lparr>status := ''pending'', progress := 0, errorMessage := None, updatedAt := clock env\<rparr>"

text \<open>
  The handler that runs once \<open>requireAuth\<close> and \<open>requireAdmin\<close> have let the request
  through. Its \<open>catch\<close> answers 500 to whatever the body throws; in the model only an
  update of a missing row throws, and the job queue accepts every job. The calls of the
  logger are left out, as in the processor.
\<close>

definition internalError :: "js_error \<Rightarrow> Response" where
  "internalError e =
     json (ErrorBody (case e of JsError m \<Rightarrow> m | NotAnError \<Rightarrow> ''Internal server error'')) 500"

definition fetchEbook :: "RouteEnv \<Rightarrow> string \<Rightarrow> World \<Rightarrow> Response \<times> World" where
  "fetchEbook env parent w =
     (if configuration w ''ebook_sidecar_enabled'' \<noteq> Some ''true'' then
        (json (ErrorBody ''E-book sidecar feature is not enabled'') 400, w)
      else
        (case request_findUnique parent (requests w) of
           None \<Rightarrow> (json (ErrorBody ''Request not found'') 404, w)
         | Some parentRequest \<Rightarrow>
             if status parentRequest \<notin> set [''downloaded'', ''available''] then
               (json (ErrorBody (''Cannot fetch e-book for request in '' @ status parentRequest
                                 @ '' status'')) 400, w)
             else
               (case findExistingEbookRequest parent (requests w) of
                  Some existingEbookRequest \<Rightarrow>
                    if status existingEbookRequest \<in> set [''failed'', ''awaiting_search''] then
                      (case request_update (req_id existingEbookRequest) (resetForRetry env)
                              (requests w) of
                         Inl e \<Rightarrow> (internalError e, w)
                       | Inr tbl \<Rightarrow>
                           (json (ResultBody True ''E-book search retried''
                                    (req_id existingEbookRequest)) 200,
                            w\<lparr>requests := tbl,
                              queue := queue w @
                                [searchEbookJob (req_id existingEbookRequest) parentRequest]\<rparr>))
                    else
                      (json (ResultBody False
                               (''E-book request already exists (status: ''
                                @ status existingEbookRequest @ '')'')
                               (req_id existingEbookRequest)) 200, w)
                | None \<Rightarrow>
                    let ebookRequest = newEbookRequest env parentRequest parent
                    in (json (ResultBody True ''E-book request created and search started''
                                (req_id ebookRequest)) 200,
                        w\<lparr>requests := requests w @ [ebookRequest],
                          queue := queue w @ [searchEbookJob (req_id ebookRequest) parentRequest]\<rparr>))))"

text \<open>
  \<open>POST\<close>: the authentication middleware is not among the sources. It either answers by
  itself (\<open>Some response\<close>) or runs the handler.
\<close>

definition POST :: "Response option \<Rightarrow> RouteEnv \<Rightarrow> string \<Rightarrow> World \<Rightarrow> Response \<times> World" where
  "POST middleware env parent w =
     (case middleware of
        Some response \<Rightarrow> (response, w)
      | None \<Rightarrow> fetchEbook env parent w)"

section \<open>The ranking engine\<close>

text \<open>
  Modelled from the spec: the ranking engine (src/lib/utils/ranking-algorithm.ts) is not
  among the sources; only its documentation and its caller are. Section 4.3 of the spec
  gives the stages and documentation/phase3/ranking-algorithm.md the stop words. The
  coverage gate compares the significant words of the target title (lower-cased, cut at
  spaces, stop words removed) with those of the candidate title; a coverage below 80%
  forces the base score to 0. The spec does not say what the fraction is for a target
  without significant words: \<open>coverage\<close> is \<open>None\<close> then and the gate lets the candidate
  through. The seed stage is \<open>min(15, log10(seedCount + 1) * 6)\<close>. What the spec leaves
  open (the fuzzy title and author matching, the format table, the size band, the bonus
  rules' predicates) is a parameter, \<open>Scorers\<close>. The base score is the sum of the five
  stage scores, and \<open>finalScore = baseScore + bonusPoints\<close>. \<open>rank\<close> orders by final
  score, then base score, both descending, then input order.
\<close>

definition STOP_WORDS :: "string list" where
  "STOP_WORDS = [''the'', ''a'', ''an'', ''of'', ''on'', ''in'', ''at'', ''by'', ''for'']"

definition toLowerChar :: "char \<Rightarrow> char" where
  "toLowerChar c =
     (let n = (of_char c :: nat) in if 65 \<le> n \<and> n \<le> 90 then char_of (n + 32) else c)"

definition toLowerCase :: "string \<Rightarrow> string" where
  "toLowerCase s = map toLowerChar s"

definition significantWords :: "string \<Rightarrow> string list" where
  "significantWords t =
     filter (\<lambda>word. word \<noteq> [] \<and> word \<notin> set STOP_WORDS) (splitOn (CHR '' '') (toLowerCase t))"

text \<open>
  Modelled from the spec: stage 1 of section 4.3, the fraction of the target's significant
  words that are present in the candidate title (the engine's source is missing).
\<close>

definition coverage :: "string \<Rightarrow> string \<Rightarrow> real option" where
  "coverage targetTitle candidateTitle =
     (let targetWords = significantWords targetTitle;
          candidateWords = significantWords candidateTitle
      in if targetWords = [] then None
         else Some (real (length (filter (\<lambda>word. word \<in> set candidateWords) targetWords))
                    / real (length targetWords)))"

text \<open>
  Modelled from the spec: stage 5 of section 4.3, \<open>min(15, log10(seedCount + 1) * 6)\<close>, over
  the reals (the engine's source is missing).
\<close>

definition seederScore :: "nat \<Rightarrow> real" where
  "seederScore seedCount = min 15 (log 10 (real seedCount + 1) * 6)"

text \<open>A hit without a seed count counts as 0 seeds, as the processor's \<open>seeders || 0\<close>.\<close>

definition seedCount :: "TorrentResult \<Rightarrow> nat" where
  "seedCount candidate = (case seeders candidate of None \<Rightarrow> 0 | Some n \<Rightarrow> n)"

record Target =
  t_title :: string
  t_author :: string

record Scorers =
  titleMatch :: "Target \<Rightarrow> TorrentResult \<Rightarrow> real"
  authorMatch :: "Target \<Rightarrow> TorrentResult \<Rightarrow> real"
  formatQuality :: "TorrentResult \<Rightarrow> real"
  sizeReasonableness :: "TorrentResult \<Rightarrow> real"
  bonusModifiers :: "(nat \<Rightarrow> nat option) \<Rightarrow> FlagConfig list \<Rightarrow> TorrentResult \<Rightarrow> real"

definition stagesTotal :: "Scorers \<Rightarrow> Target \<Rightarrow> TorrentResult \<Rightarrow> real" where
  "stagesTotal sc target candidate =
     titleMatch sc target candidate + authorMatch sc target candidate
     + formatQuality sc candidate + seederScore (seedCount candidate)
     + sizeReasonableness sc candidate"

text \<open>
  Modelled from the spec: the combined base score of section 4.3, forced to 0 by the
  coverage gate (the engine's source is missing).
\<close>

definition baseScore :: "Scorers \<Rightarrow> Target \<Rightarrow> TorrentResult \<Rightarrow> real" where
  "baseScore sc target candidate =
     (case coverage (t_title target) (title candidate) of
        None \<Rightarrow> stagesTotal sc target candidate
      | Some c \<Rightarrow> if c < 0.8 then 0 else stagesTotal sc target candidate)"

definition rankOne ::
  "Scorers \<Rightarrow> Target \<Rightarrow> (nat \<Rightarrow> nat option) \<Rightarrow> FlagConfig list \<Rightarrow> TorrentResult \<Rightarrow> RankedTorrent" where
  "rankOne sc target sourcePriorities bonusRules candidate =
     (let b = baseScore sc target candidate;
          bp = bonusModifiers sc sourcePriorities bonusRules candidate
      in \<lparr>title = title candidate, indexer = indexer candidate,
          indexerId = indexerId candidate, seeders = seeders candidate,
          format = format candidate, sizeBytes = sizeBytes candidate,
          score = b, bonusPoints = bp, finalScore = b + bp\<rparr>)"

definition outranks :: "RankedTorrent \<Rightarrow> RankedTorrent \<Rightarrow> bool" where
  "outranks x y =
     (finalScore x > finalScore y \<or> (finalScore x = finalScore y \<and> score x > score y))"

fun insertRanked :: "RankedTorrent \<Rightarrow> RankedTorrent list \<Rightarrow> RankedTorrent list" where
  "insertRanked r [] = [r]"
| "insertRanked r (x # xs) = (if outranks x r then x # insertRanked r xs else r # x # xs)"

text \<open>
  Modelled from the spec: \<open>rank(candidates, target, sourcePriorities, bonusRules)\<close> of
  section 4.3 (the engine's source is missing).
\<close>

definition rank ::
  "Scorers \<Rightarrow> TorrentResult list \<Rightarrow> Target \<Rightarrow> (nat \<Rightarrow> nat option) \<Rightarrow> FlagConfig list \<Rightarrow>
     RankedTorrent list" where
  "rank sc candidates target sourcePriorities bonusRules =
     foldr insertRanked (map (rankOne sc target sourcePriorities bonusRules) candidates) []"

section \<open>Concrete inputs used by the examples\<close>

text \<open>A job-event store whose every insert is rejected.\<close>

definition rejecting_store :: jobEvent_create where
  "rejecting_store ev evs = Inl (JsError ''connection refused'')"

text \<open>A store with one pending request, search environments, and a running job.\<close>

definition book1 :: AudiobookRef where
  "book1 = \<lparr>ref_id = ''ab-1'', ref_title = ''The Wild Robot'', ref_author = ''Peter Brown'',
            ref_asin = None\<rparr>"

definition audiobook1 :: Audiobook where
  "audiobook1 = \<lparr>ab_id = ''ab-1'', ab_title = ''The Wild Robot'', ab_author = ''Peter Brown'',
                 ab_audibleAsin = None\<rparr>"

definition request1 :: Request where
  "request1 = \<lparr>req_id = ''req-1'', userId = ''user-1'', audiobookId = ''ab-1'',
               req_audiobook = audiobook1, req_type = ''audiobook'', parentRequestId = None,
               status = ''pending'', progress = 0, searchAttempts = 0, lastSearchAt = None,
               errorMessage = None, updatedAt = 0, deletedAt = None\<rparr>"

definition payload1 :: SearchIndexersPayload where
  "payload1 = \<lparr>p_requestId = ''req-1'', p_audiobook = book1, p_jobId = Some ''job-1''\<rparr>"

definition world_configured :: World where
  "world_configured =
     \<lparr>requests = [request1],
      configuration = (\<lambda>k. if k = ''prowlarr_indexers'' then Some ''[{id:1,priority:10}]'' else None),
      queue = []\<rparr>"

definition world_unconfigured :: World where
  "world_unconfigured = \<lparr>requests = [request1], configuration = (\<lambda>k. None), queue = []\<rparr>"

definition torrent1 :: TorrentResult where
  "torrent1 = \<lparr>title = ''The Wild Robot [MP3]'', indexer = ''Indexer A'', indexerId = Some 1,
               seeders = Some 9, format = Some ''MP3'', sizeBytes = 300000000\<rparr>"

definition ranked1 :: RankedTorrent where
  "ranked1 = \<lparr>title = ''The Wild Robot [MP3]'', indexer = ''Indexer A'', indexerId = Some 1,
              seeders = Some 9, format = Some ''MP3'', sizeBytes = 300000000,
              score = 80, bonusPoints = - 40, finalScore = 40\<rparr>"

definition env_low_quality :: SearchEnv where
  "env_low_quality =
     \<lparr>parseIndexers = (\<lambda>s. Inr [\<lparr>ix_id = 1, ix_priority = Some 10\<rparr>]),
      parseFlagConfigs = (\<lambda>s. Inr []),
      getProwlarrService = None,
      prowlarr_search = (\<lambda>q opts. Inr [torrent1]),
      rankTorrents = (\<lambda>results target priorities flags. [ranked1]),
      now = 1000\<rparr>"

definition job1 :: "SearchOutcome Job" where
  "job1 = \<lparr>job_status = Running, attempts = 0, maxAttempts = 3, job_result = None,
            job_errorMessage = None\<rparr>"

text \<open>A completed request with a failed ebook request of its own, and variants.\<close>

definition parent1 :: Request where
  "parent1 = \<lparr>req_id = ''req-1'', userId = ''user-1'', audiobookId = ''ab-1'',
              req_audiobook = audiobook1, req_type = ''audiobook'', parentRequestId = None,
              status = ''available'', progress = 100, searchAttempts = 1, lastSearchAt = None,
              errorMessage = None, updatedAt = 10, deletedAt = None\<rparr>"

definition sidecar1 :: Request where
  "sidecar1 = \<lparr>req_id = ''req-2'', userId = ''user-1'', audiobookId = ''ab-1'',
               req_audiobook = audiobook1, req_type = ''ebook'', parentRequestId = Some ''req-1'',
               status = ''failed'', progress = 40, searchAttempts = 1, lastSearchAt = None,
               errorMessage = Some ''All download links failed'', updatedAt = 20,
               deletedAt = None\<rparr>"

definition sidecar_enabled :: "string \<Rightarrow> string option" where
  "sidecar_enabled k = (if k = ''ebook_sidecar_enabled'' then Some ''true'' else None)"

definition world_sidecar_failed :: World where
  "world_sidecar_failed =
     \<lparr>requests = [parent1, sidecar1], configuration = sidecar_enabled, queue = []\<rparr>"

definition world_sidecar_disabled :: World where
  "world_sidecar_disabled =
     \<lparr>requests = [parent1, sidecar1], configuration = (\<lambda>k. None), queue = []\<rparr>"

definition world_parent_downloading :: World where
  "world_parent_downloading =
     \<lparr>requests = [parent1\<lparr>status := ''downloading'', progress := 30\<rparr>],
      configuration = sidecar_enabled, queue = []\<rparr>"

definition route_env1 :: RouteEnv where
  "route_env1 = \<lparr>newId = ''req-3'', clock = 2000\<rparr>"





section \<open>Properties of the logger\<close>

lemma persistToDatabase_returns:
  "\<exists>w'. persistToDatabase db lg level message metadata w = Inr w'
        \<and> pipeline w' = pipeline w \<and> console w' = console w"
  by (simp add: persistToDatabase_def split: option.split sum.split)

lemma log_returns:
  "\<exists>w'. logger_log configured db lg level message metadata w = Inr w' \<and> pipeline w' = pipeline w"
proof (cases "LEVEL_PRIORITY level < LEVEL_PRIORITY configured")
  case True
  then show ?thesis by (simp add: logger_log_def)
next
  case False
  define w2 where "w2 = (let w1 = w\<lparr>console := console w @ consoleOutput level (formattedMessage lg level message)\<rparr>
      in case metadata of None \<Rightarrow> w1
         | Some m \<Rightarrow> if length m > 0 then w1\<lparr>console := console w1 @ [ConsoleLogJson m]\<rparr> else w1)"
  have p2: "pipeline w2 = pipeline w"
    by (simp add: w2_def Let_def split: option.split)
  obtain w' where "persistToDatabase db lg level message metadata w2 = Inr w'"
    and "pipeline w' = pipeline w2"
    using persistToDatabase_returns by blast
  with False p2 show ?thesis
    by (auto simp: logger_log_def Let_def w2_def)
qed

text \<open>
  C9. A job-aware log call whose insert into the job-event store is rejected still
  returns normally (no error value comes back to the caller), and neither the
  job-event table nor any other persisted state differs from what it was before the
  call; only the console has the line. This holds at every level, under every configured
  log level, and whatever the reason of the rejection.
\<close>

theorem log_write_failure_swallowed:
  assumes "jobId lg = Some j"
    and "db (jobEventData j lg level message metadata) (job_events w) = Inl e"
  shows "(\<exists>w'. logger_log configured db lg level message metadata w = Inr w'
            \<and> pipeline w' = pipeline w \<and> job_events w' = job_events w)
       \<and> persistToDatabase db lg level message metadata w = Inr w"
proof -
  have a: "persistToDatabase db lg level message metadata w = Inr w"
    using assms by (simp add: persistToDatabase_def)
  have b: "\<And>u. job_events u = job_events w \<Longrightarrow>
             persistToDatabase db lg level message metadata u = Inr u"
    using assms by (simp add: persistToDatabase_def)
  have c: "\<exists>w'. logger_log configured db lg level message metadata w = Inr w'
            \<and> pipeline w' = pipeline w \<and> job_events w' = job_events w"
    by (auto simp: logger_log_def Let_def b split: option.split)
  from a c show ?thesis by blast
qed

theorem log_write_failure_swallowed_witness:
  "jobId (forJob (Some ''job-1'') ''SearchIndexers'') = Some ''job-1''
   \<and> rejecting_store
        (jobEventData ''job-1'' (forJob (Some ''job-1'') ''SearchIndexers'') Warn
           ''No torrents found'' None) [] = Inl (JsError ''connection refused'')
   \<and> (\<exists>w'. logger_log Info rejecting_store (forJob (Some ''job-1'') ''SearchIndexers'') Warn
           ''No torrents found'' None
           \<lparr>pipeline = (7::nat), job_events = [], console = []\<rparr> = Inr w'
         \<and> pipeline w' = 7 \<and> job_events w' = [])"
proof -
  let ?lg = "forJob (Some ''job-1'') ''SearchIndexers''"
  let ?w = "\<lparr>pipeline = (7::nat), job_events = [], console = []\<rparr>"
  have h1: "jobId ?lg = Some ''job-1''"
    by (simp add: forJob_def)
  have h2: "rejecting_store (jobEventData ''job-1'' ?lg Warn ''No torrents found'' None)
              (job_events ?w) = Inl (JsError ''connection refused'')"
    by (simp add: rejecting_store_def)
  from log_write_failure_swallowed
         [where db = rejecting_store and lg = "?lg" and j = "''job-1''" and w = "?w"
            and level = Warn and message = "''No torrents found''" and metadata = None
            and e = "JsError ''connection refused''" and configured = Info, OF h1 h2]
  have "\<exists>w'. logger_log Info rejecting_store ?lg Warn ''No torrents found'' None ?w = Inr w'
          \<and> pipeline w' = pipeline ?w \<and> job_events w' = job_events ?w"
    by blast
  with h1 h2 show ?thesis by simp
qed

text \<open>
  C10. A debug call never changes the job-event table: for every logger (job-aware with
  a defined job id or not), every configured log level and every behaviour of the
  database, the call returns and \<open>job_events\<close> is what it was.
\<close>

theorem debug_never_persisted:
  "\<exists>w'. debug configured db lg message metadata w = Inr w'
       \<and> job_events w' = job_events w \<and> pipeline w' = pipeline w"
  by (auto simp: debug_def logger_log_def Let_def split: option.split)

section \<open>Properties of the path mapper\<close>

lemma absolutePath_simps [simp]:
  "absolutePath [] = []"
  "absolutePath (s # segs) = CHR ''/'' # s @ absolutePath segs"
  "absolutePath (xs @ ys) = absolutePath xs @ absolutePath ys"
  by (simp_all add: absolutePath_def)

lemma splitOn_no_sep: "c \<notin> set s \<Longrightarrow> splitOn c s = [s]"
  by (induction s) auto

lemma splitOn_append_sep: "c \<notin> set s \<Longrightarrow> splitOn c (s @ c # t) = s # splitOn c t"
  by (induction s) auto

lemma splitOn_absolutePath_aux:
  "CHR ''/'' \<notin> set s \<Longrightarrow> \<forall>x \<in> set segs. CHR ''/'' \<notin> set x \<Longrightarrow>
   splitOn (CHR ''/'') (s @ absolutePath segs) = s # segs"
proof (induction segs arbitrary: s)
  case Nil
  then show ?case by (simp add: splitOn_no_sep)
next
  case (Cons x xs)
  then show ?case by (simp add: splitOn_append_sep)
qed

lemma splitOn_absolutePath:
  "\<forall>x \<in> set segs. CHR ''/'' \<notin> set x \<Longrightarrow> splitOn (CHR ''/'') (absolutePath segs) = [] # segs"
  using splitOn_absolutePath_aux [of "[]" segs] by simp

lemma normalizeSegments_plain:
  "\<forall>x \<in> set segs. x = [] \<or> plainSegment x \<Longrightarrow>
   normalizeSegments a res segs = res @ filter (\<lambda>x. x \<noteq> []) segs"
  by (induction segs arbitrary: res) (auto simp: plainSegment_def)

lemma joinWith_Cons:
  "segs \<noteq> [] \<Longrightarrow> joinWith ''/'' (s # segs) = s @ CHR ''/'' # joinWith ''/'' segs"
  by (cases segs) simp_all

lemma joinWith_absolutePath:
  "segs \<noteq> [] \<Longrightarrow> CHR ''/'' # joinWith ''/'' segs = absolutePath segs"
proof (induction segs)
  case Nil
  then show ?case by simp
next
  case (Cons s segs)
  show ?case
  proof (cases "segs = []")
    case True
    then show ?thesis by simp
  next
    case False
    with Cons show ?thesis by (simp add: joinWith_Cons)
  qed
qed

lemma joinWith_nonempty:
  assumes "segs \<noteq> []" and "hd segs \<noteq> []"
  shows "joinWith ''/'' segs \<noteq> []"
proof (cases segs)
  case Nil
  with assms show ?thesis by simp
next
  case (Cons s rest)
  with assms show ?thesis by (cases rest) simp_all
qed

lemma last_absolutePath:
  "segs \<noteq> [] \<Longrightarrow> last segs \<noteq> [] \<Longrightarrow> last (absolutePath segs) = last (last segs)"
  by (induction segs) (auto simp: absolutePath_def)

lemma plainSegment_last:
  "plainSegment x \<Longrightarrow> last x \<noteq> CHR ''/''"
  unfolding plainSegment_def using last_in_set by metis

lemma path_normalize_absolutePath:
  assumes "\<forall>x \<in> set segs. x = [] \<or> plainSegment x" and "segs \<noteq> []" and "last segs \<noteq> []"
  shows "path_normalize (absolutePath segs) = absolutePath (filter (\<lambda>x. x \<noteq> []) segs)"
proof -
  let ?kept = "filter (\<lambda>x. x \<noteq> []) segs"
  have nosep: "\<forall>x \<in> set segs. CHR ''/'' \<notin> set x"
  proof
    fix x
    assume "x \<in> set segs"
    with assms(1) have "x = [] \<or> plainSegment x" by blast
    then show "CHR ''/'' \<notin> set x"
    proof
      assume "x = []"
      then show ?thesis by simp
    next
      assume "plainSegment x"
      then show ?thesis by (simp add: plainSegment_def)
    qed
  qed
  have lastseg: "last segs \<in> set segs" using assms(2) by simp
  then have "plainSegment (last segs)" using assms(1,3) by blast
  then have notrail: "last (last segs) \<noteq> CHR ''/''"
    by (rule plainSegment_last)
  have "last segs \<in> set ?kept" using lastseg assms(3) by simp
  then have kept: "?kept \<noteq> []" by force
  then have "hd ?kept \<in> set ?kept" by (rule hd_in_set)
  then have hdkept: "hd ?kept \<noteq> []" by simp
  have ne: "absolutePath segs \<noteq> []"
    using assms(2) by (cases segs) simp_all
  have hd: "hd (absolutePath segs) = CHR ''/''"
    using assms(2) by (cases segs) simp_all
  have sp: "splitOn (CHR ''/'') (absolutePath segs) = [] # segs"
    using nosep by (rule splitOn_absolutePath)
  have all: "\<forall>x \<in> set ([] # segs). x = [] \<or> plainSegment x"
    using assms(1) by simp
  have "normalizeSegments False [] ([] # segs) = [] @ filter (\<lambda>x. x \<noteq> []) ([] # segs)"
    using all by (rule normalizeSegments_plain)
  then have nseg: "normalizeSegments False [] ([] # segs) = ?kept"
    by (simp del: normalizeSegments.simps)
  have ns: "normalizeString (absolutePath segs) False = joinWith ''/'' ?kept"
    unfolding normalizeString_def sp nseg ..
  have jne: "joinWith ''/'' ?kept \<noteq> []"
    using kept hdkept by (rule joinWith_nonempty)
  have la: "last (absolutePath segs) \<noteq> CHR ''/''"
    using notrail assms(2,3) by (simp add: last_absolutePath)
  have "path_normalize (absolutePath segs) = CHR ''/'' # joinWith ''/'' ?kept"
    unfolding path_normalize_def Let_def using ne hd jne la by (simp add: ns)
  also have "\<dots> = absolutePath ?kept"
    using kept by (rule joinWith_absolutePath)
  finally show ?thesis .
qed

lemma backslashesToSlashes_id:
  assumes "CHR 0x5C \<notin> set p"
  shows "backslashesToSlashes p = p"
  unfolding backslashesToSlashes_def
proof (rule map_idI)
  fix c
  assume "c \<in> set p"
  with assms have "c \<noteq> CHR 0x5C" by blast
  then show "(if c = CHR 0x5C then CHR ''/'' else c) = c" by simp
qed

lemma backslashesToSlashes_plain:
  assumes "\<forall>x \<in> set segs. plainSegment x"
  shows "backslashesToSlashes (absolutePath segs) = absolutePath segs"
proof (rule backslashesToSlashes_id)
  show "CHR 0x5C \<notin> set (absolutePath segs)"
    using assms by (induction segs) (auto simp: plainSegment_def)
qed

lemma filter_plain:
  "\<forall>x \<in> set segs. plainSegment x \<Longrightarrow> filter (\<lambda>x. x \<noteq> []) segs = segs"
  by (induction segs) (auto simp: plainSegment_def)

lemma normalizePath_absolutePath:
  assumes "\<forall>x \<in> set segs. plainSegment x" and "segs \<noteq> []"
  shows "normalizePath (absolutePath segs) = absolutePath segs"
proof -
  have pl: "plainSegment (last segs)" using assms by simp
  then have l: "last segs \<noteq> []" by (simp add: plainSegment_def)
  have "\<forall>x \<in> set segs. x = [] \<or> plainSegment x" using assms(1) by blast
  then have "path_normalize (absolutePath segs) = absolutePath (filter (\<lambda>x. x \<noteq> []) segs)"
    using assms(2) l by (rule path_normalize_absolutePath)
  then have n: "path_normalize (absolutePath segs) = absolutePath segs"
    using assms(1) by (simp add: filter_plain)
  have "last (absolutePath segs) \<noteq> CHR ''/''"
    using plainSegment_last [OF pl] assms(2) l by (simp add: last_absolutePath)
  then show ?thesis
    using assms(1) by (simp add: normalizePath_def backslashesToSlashes_plain n)
qed

lemma path_join_absolutePath:
  assumes "\<forall>x \<in> set segsL. plainSegment x" and "segsL \<noteq> []" and "\<forall>x \<in> set rest. plainSegment x"
  shows "path_join (absolutePath segsL) (absolutePath rest) = absolutePath (segsL @ rest)"
proof (cases rest)
  case Nil
  have pl: "plainSegment (last segsL)" using assms by simp
  then have l: "last segsL \<noteq> []" by (simp add: plainSegment_def)
  have ne: "absolutePath segsL \<noteq> []" using assms(2) by (cases segsL) auto
  have "\<forall>x \<in> set segsL. x = [] \<or> plainSegment x" using assms(1) by blast
  then have "path_normalize (absolutePath segsL) = absolutePath (filter (\<lambda>x. x \<noteq> []) segsL)"
    using assms(2) l by (rule path_normalize_absolutePath)
  then have "path_normalize (absolutePath segsL) = absolutePath segsL"
    using assms(1) by (simp add: filter_plain)
  with Nil ne show ?thesis by (simp add: path_join_def)
next
  case (Cons r rs)
  let ?all = "segsL @ [] # rest"
  have ne1: "absolutePath segsL \<noteq> []" using assms(2) by (cases segsL) auto
  have ne2: "absolutePath rest \<noteq> []" using Cons by simp
  have joined: "joinWith ''/'' (filter (\<lambda>arg. arg \<noteq> []) [absolutePath segsL, absolutePath rest])
                  = absolutePath ?all"
    using ne1 ne2 by simp
  have p: "\<forall>x \<in> set ?all. x = [] \<or> plainSegment x" using assms by auto
  have "plainSegment (last rest)" using Cons assms(3) by simp
  then have "last rest \<noteq> []" by (simp add: plainSegment_def)
  then have l: "last ?all \<noteq> []" using Cons by simp
  have f: "filter (\<lambda>x. x \<noteq> []) ?all = segsL @ rest"
    using assms(1,3) by (simp add: filter_plain)
  have ne: "?all \<noteq> []" by simp
  have "path_normalize (absolutePath ?all) = absolutePath (filter (\<lambda>x. x \<noteq> []) ?all)"
    using p ne l by (rule path_normalize_absolutePath)
  then have pn: "path_normalize (absolutePath ?all) = absolutePath (segsL @ rest)"
    unfolding f .
  have ane: "absolutePath ?all \<noteq> []" by simp
  show ?thesis
    unfolding path_join_def Let_def joined using ane pn by simp
qed

lemma absolutePath_nonempty: "segs \<noteq> [] \<Longrightarrow> absolutePath segs \<noteq> []"
  by (cases segs) simp_all

lemma transform_plain_paths:
  assumes "\<forall>x \<in> set segsR. plainSegment x" and "segsR \<noteq> []"
    and "\<forall>x \<in> set segsL. plainSegment x" and "segsL \<noteq> []"
    and "\<forall>x \<in> set rest. plainSegment x"
  shows "transform (absolutePath segsR @ absolutePath rest)
           \<lparr>enabled = True, remotePath = absolutePath segsR, localPath = absolutePath segsL\<rparr>
         = absolutePath segsL @ absolutePath rest"
proof -
  let ?p = "absolutePath segsR @ absolutePath rest"
  have all: "\<forall>x \<in> set (segsR @ rest). plainSegment x"
    using assms(1,5) by auto
  have "normalizePath (absolutePath (segsR @ rest)) = absolutePath (segsR @ rest)"
    using all assms(2) by (intro normalizePath_absolutePath) simp_all
  then have q: "normalizePath ?p = ?p" by simp
  have r: "normalizePath (absolutePath segsR) = absolutePath segsR"
    using assms(1,2) by (rule normalizePath_absolutePath)
  have l: "normalizePath (absolutePath segsL) = absolutePath segsL"
    using assms(3,4) by (rule normalizePath_absolutePath)
  have ne: "absolutePath segsR \<noteq> []" "absolutePath segsL \<noteq> []"
    using assms(2,4) by (simp_all add: absolutePath_nonempty)
  have j: "path_join (absolutePath segsL) (absolutePath rest) = absolutePath segsL @ absolutePath rest"
    using path_join_absolutePath [OF assms(3,4,5)] by simp
  have "transform ?p \<lparr>enabled = True, remotePath = absolutePath segsR, localPath = absolutePath segsL\<rparr>
          = path_join (absolutePath segsL) (drop (length (absolutePath segsR)) ?p)"
    unfolding transform_def Let_def using ne by (simp add: q r l)
  then show ?thesis
    by (simp add: j)
qed

text \<open>
  The root is left out of the replacement property below for a reason: with \<open>/\<close> as a
  prefix the result of \<open>path.join\<close> is not the literal replacement, which would be
  \<open>//a\<close> in the first case and \<open>/locala/b\<close> in the second.
\<close>

lemma transform_root_prefix:
  "transform ''/remote/a'' \<lparr>enabled = True, remotePath = ''/remote'', localPath = ''/''\<rparr> = ''/a''
   \<and> transform ''/a/b'' \<lparr>enabled = True, remotePath = ''/'', localPath = ''/local''\<rparr>
       = ''/local/a/b''"
  by code_simp

text \<open>
  C7, as the code has it. \<open>transform\<close> returns the reported path unchanged when mapping is
  disabled, when the path or either prefix is empty, and when the normalised path
  (backslashes turned into slashes, \<open>path.normalize\<close> applied, a trailing slash removed)
  does not start with the normalised remote prefix. In every other case it returns
  \<open>path.join\<close> of the normalised local prefix and what follows the normalised remote
  prefix in the normalised path. When both prefixes are absolute paths in normal form
  other than the root \<open>/\<close> (each has at least one segment) and the path is the remote
  prefix followed by zero or more further segments in normal form, that result is the
  path with the remote prefix replaced by the local prefix. In particular
  \<open>/remote/a/b\<close> under \<open>/remote\<close> \<open>\<mapsto>\<close> \<open>/local\<close> becomes \<open>/local/a/b\<close>, and a
  disabled mapping returns every path as it is.
\<close>

theorem transform_normalised_prefix:
  "(\<not> enabled config \<longrightarrow> transform p config = p)
   \<and> (p = [] \<or> remotePath config = [] \<or> localPath config = [] \<longrightarrow> transform p config = p)
   \<and> (\<not> prefix (normalizePath (remotePath config)) (normalizePath p)
        \<longrightarrow> transform p config = p)
   \<and> (enabled config \<and> p \<noteq> [] \<and> remotePath config \<noteq> [] \<and> localPath config \<noteq> []
        \<and> prefix (normalizePath (remotePath config)) (normalizePath p)
        \<longrightarrow> transform p config =
              path_join (normalizePath (localPath config))
                (drop (length (normalizePath (remotePath config))) (normalizePath p)))
   \<and> ((\<forall>x \<in> set segsR. plainSegment x) \<and> segsR \<noteq> []
        \<and> (\<forall>x \<in> set segsL. plainSegment x) \<and> segsL \<noteq> []
        \<and> (\<forall>x \<in> set rest. plainSegment x)
        \<longrightarrow> transform (absolutePath segsR @ absolutePath rest)
              \<lparr>enabled = True, remotePath = absolutePath segsR, localPath = absolutePath segsL\<rparr>
            = absolutePath segsL @ absolutePath rest)
   \<and> transform ''/remote/a/b''
        \<lparr>enabled = True, remotePath = ''/remote'', localPath = ''/local''\<rparr> = ''/local/a/b''
   \<and> (\<forall>r l. transform p \<lparr>enabled = False, remotePath = r, localPath = l\<rparr> = p)"
proof -
  have ex: "transform ''/remote/a/b''
        \<lparr>enabled = True, remotePath = ''/remote'', localPath = ''/local''\<rparr> = ''/local/a/b''"
    by code_simp
  have plain: "(\<forall>x \<in> set segsR. plainSegment x) \<and> segsR \<noteq> []
        \<and> (\<forall>x \<in> set segsL. plainSegment x) \<and> segsL \<noteq> []
        \<and> (\<forall>x \<in> set rest. plainSegment x)
        \<longrightarrow> transform (absolutePath segsR @ absolutePath rest)
              \<lparr>enabled = True, remotePath = absolutePath segsR, localPath = absolutePath segsL\<rparr>
            = absolutePath segsL @ absolutePath rest"
    using transform_plain_paths by blast
  have rest: "(\<not> enabled config \<longrightarrow> transform p config = p)
   \<and> (p = [] \<or> remotePath config = [] \<or> localPath config = [] \<longrightarrow> transform p config = p)
   \<and> (\<not> prefix (normalizePath (remotePath config)) (normalizePath p)
        \<longrightarrow> transform p config = p)
   \<and> (enabled config \<and> p \<noteq> [] \<and> remotePath config \<noteq> [] \<and> localPath config \<noteq> []
        \<and> prefix (normalizePath (remotePath config)) (normalizePath p)
        \<longrightarrow> transform p config =
              path_join (normalizePath (localPath config))
                (drop (length (normalizePath (remotePath config))) (normalizePath p)))
   \<and> (\<forall>r l. transform p \<lparr>enabled = False, remotePath = r, localPath = l\<rparr> = p)"
    by (simp add: transform_def Let_def)
  from ex plain rest show ?thesis by blast
qed

theorem transform_normalised_prefix_witness:
  "transform ''/remote/a/''
       \<lparr>enabled = True, remotePath = ''/remote/'', localPath = ''/local''\<rparr>
     = path_join ''/local'' ''/a''
   \<and> transform ''/elsewhere/a''
       \<lparr>enabled = True, remotePath = ''/remote'', localPath = ''/local''\<rparr> = ''/elsewhere/a''
   \<and> transform ''/remote/a''
       \<lparr>enabled = True, remotePath = ''/remote'', localPath = []\<rparr> = ''/remote/a''
   \<and> transform ''/remote/a''
       \<lparr>enabled = False, remotePath = ''/remote'', localPath = ''/local''\<rparr> = ''/remote/a''
   \<and> transform (absolutePath [''remote''] @ absolutePath [''a'', ''b''])
       \<lparr>enabled = True, remotePath = absolutePath [''remote''],
        localPath = absolutePath [''local'']\<rparr>
     = absolutePath [''local''] @ absolutePath [''a'', ''b'']"
proof -
  let ?c1 = "\<lparr>enabled = True, remotePath = ''/remote/'', localPath = ''/local''\<rparr>"
  let ?c2 = "\<lparr>enabled = True, remotePath = ''/remote'', localPath = ''/local''\<rparr>"
  let ?c3 = "\<lparr>enabled = True, remotePath = ''/remote'', localPath = []\<rparr>"
  let ?c4 = "\<lparr>enabled = False, remotePath = ''/remote'', localPath = ''/local''\<rparr>"
  have n1: "normalizePath ''/remote/'' = ''/remote''" by code_simp
  have n2: "normalizePath ''/remote/a/'' = ''/remote/a''" by code_simp
  have n3: "normalizePath ''/local'' = ''/local''" by code_simp
  have n4: "normalizePath ''/remote'' = ''/remote''" by code_simp
  have n5: "normalizePath ''/elsewhere/a'' = ''/elsewhere/a''" by code_simp
  have a: "transform ''/remote/a/'' ?c1 = path_join ''/local'' ''/a''"
    using transform_normalised_prefix [of ?c1 "''/remote/a/''"] by (simp add: n1 n2 n3)
  have b: "transform ''/elsewhere/a'' ?c2 = ''/elsewhere/a''"
    using transform_normalised_prefix [of ?c2 "''/elsewhere/a''"] by (simp add: n4 n5)
  have c: "transform ''/remote/a'' ?c3 = ''/remote/a''"
    using transform_normalised_prefix [of ?c3 "''/remote/a''"] by simp
  have d: "transform ''/remote/a'' ?c4 = ''/remote/a''"
    using transform_normalised_prefix [of ?c4 "''/remote/a''"] by simp
  have p1: "\<forall>x \<in> set [''remote'']. plainSegment x" by (simp add: plainSegment_def)
  have p2: "\<forall>x \<in> set [''local'']. plainSegment x" by (simp add: plainSegment_def)
  have p3: "\<forall>x \<in> set [''a'', ''b'']. plainSegment x" by (simp add: plainSegment_def)
  have e: "transform (absolutePath [''remote''] @ absolutePath [''a'', ''b''])
       \<lparr>enabled = True, remotePath = absolutePath [''remote''],
        localPath = absolutePath [''local'']\<rparr>
     = absolutePath [''local''] @ absolutePath [''a'', ''b'']"
    using transform_normalised_prefix
            [where segsR = "[''remote'']" and segsL = "[''local'']" and rest = "[''a'', ''b'']"]
          p1 p2 p3
    by blast
  from a b c d e show ?thesis by blast
qed

text \<open>
  C7, as the spec words it, fails in both directions, because the comparison is made on
  normalised paths. A Windows-style path does not start with \<open>/remote\<close> and is
  rewritten all the same; and a path with a trailing slash starts with \<open>/remote\<close>, yet
  the result is not the path with that prefix replaced by \<open>/local\<close>.
\<close>

theorem transform_raw_prefix_counterexample:
  "\<not> prefix ''/remote'' (CHR 0x5C # ''remote'' @ CHR 0x5C # ''a'')
   \<and> transform (CHR 0x5C # ''remote'' @ CHR 0x5C # ''a'')
        \<lparr>enabled = True, remotePath = ''/remote'', localPath = ''/local''\<rparr> = ''/local/a''
   \<and> ''/local/a'' \<noteq> CHR 0x5C # ''remote'' @ CHR 0x5C # ''a''
   \<and> prefix ''/remote'' ''/remote/a/''
   \<and> transform ''/remote/a/''
        \<lparr>enabled = True, remotePath = ''/remote'', localPath = ''/local''\<rparr> = ''/local/a''
   \<and> ''/local/a'' \<noteq> ''/local'' @ drop (length ''/remote'') ''/remote/a/''"
  by code_simp

section \<open>Properties of the search job processor\<close>

lemma find_map_update:
  assumes "\<And>r. req_id (f r) = req_id r"
  shows "find (\<lambda>r. req_id r = rid) (map (\<lambda>r. if req_id r = rid then f r else r) tbl)
         = map_option f (find (\<lambda>r. req_id r = rid) tbl)"
  using assms by (induction tbl) auto

lemma request_update_found:
  assumes "request_findUnique rid tbl = Some r"
  shows "request_update rid f tbl = Inr (map (\<lambda>r. if req_id r = rid then f r else r) tbl)"
  using assms by (simp add: request_update_def)

lemma request_findUnique_updated:
  assumes "request_findUnique rid tbl = Some r" and "\<And>r. req_id (f r) = req_id r"
  shows "request_findUnique rid (map (\<lambda>r. if req_id r = rid then f r else r) tbl) = Some (f r)"
  using assms by (simp add: request_findUnique_def find_map_update)

text \<open>
  C2. A ranked candidate whose final score is its base score plus its bonus points, as
  the ranking engine builds it, is kept by the processor's filter exactly when its base
  score is at least 50 and base score plus bonus points is at least 50. A candidate with
  base score 80 and bonus points -40 is therefore left out.
\<close>

theorem dual_threshold_filter:
  assumes "result \<in> set rankedResults"
    and "finalScore result = score result + bonusPoints result"
  shows "(result \<in> set (filteredResults rankedResults)
            \<longleftrightarrow> score result \<ge> 50 \<and> score result + bonusPoints result \<ge> 50)
       \<and> (score result = 80 \<and> bonusPoints result = - 40
            \<longrightarrow> result \<notin> set (filteredResults rankedResults))"
  using assms by (auto simp: filteredResults_def)

theorem dual_threshold_filter_witness:
  "ranked1 \<in> set [ranked1]
   \<and> finalScore ranked1 = score ranked1 + bonusPoints ranked1
   \<and> score ranked1 = 80 \<and> bonusPoints ranked1 = - 40
   \<and> ranked1 \<notin> set (filteredResults [ranked1])"
proof -
  have h1: "ranked1 \<in> set [ranked1]" by simp
  have h2: "finalScore ranked1 = score ranked1 + bonusPoints ranked1"
    by (simp add: ranked1_def)
  have h3: "score ranked1 = 80 \<and> bonusPoints ranked1 = - 40"
    by (simp add: ranked1_def)
  from dual_threshold_filter [OF h1 h2] h3
  have "ranked1 \<notin> set (filteredResults [ranked1])" by blast
  with h1 h2 h3 show ?thesis by blast
qed

lemma flagConfigs_requests [simp]: "flagConfigs env (w\<lparr>requests := tbl\<rparr>) = flagConfigs env w"
  by (simp add: flagConfigs_def)

lemma markSearching_id [simp]: "req_id (markSearching env r) = req_id r"
  by (simp add: markSearching_def)

lemma markFailed_id [simp]: "req_id (markFailed env e r) = req_id r"
  by (simp add: markFailed_def)

lemma markAwaitingSearch_id [simp]: "req_id (markAwaitingSearch env msg r) = req_id r"
  by (simp add: markAwaitingSearch_def)

lemma tryBlock_reaches_search:
  assumes req: "request_findUnique (p_requestId payload) (requests w) = Some r"
    and cfg: "configuration w ''prowlarr_indexers'' = Some indexersConfigStr" "indexersConfigStr \<noteq> []"
    and parse: "parseIndexers env indexersConfigStr = Inr indexersConfig" "indexersConfig \<noteq> []"
    and flags: "flagConfigs env w = Inr flags"
    and svc: "getProwlarrService env = None"
    and search: "prowlarr_search env (ref_title (p_audiobook payload))
                   \<lparr>category = 3030, minSeeders = 1, maxResults = 100,
                    indexerIds = map ix_id indexersConfig\<rparr> = Inr searchResults"
  shows "tryBlock env payload w =
           afterSearch env payload indexersConfig flags searchResults
             (w\<lparr>requests := map (\<lambda>r. if req_id r = p_requestId payload
                                       then markSearching env r else r) (requests w)\<rparr>)"
  using assms by (simp add: tryBlock_def request_update_found Let_def)

text \<open>
  C3. Take an execution that reaches the external search (the request exists, the
  indexer configuration is present, parses and is not empty, the flag configuration
  parses, the Prowlarr service is available) in which the search returns no candidate,
  or the ranked candidates all fail the dual threshold. Then the processor returns a
  result (it does not throw) with \<open>success: false\<close>; the request's status is
  \<open>awaiting_search\<close> and its \<open>errorMessage\<close> is set; no job is enqueued; and at the job
  queue boundary the job is completed with that result, its attempt counter unchanged.
\<close>

theorem no_qualifying_candidate_awaiting_search:
  assumes req: "request_findUnique (p_requestId payload) (requests w) = Some r"
    and cfg: "configuration w ''prowlarr_indexers'' = Some indexersConfigStr" "indexersConfigStr \<noteq> []"
    and parse: "parseIndexers env indexersConfigStr = Inr indexersConfig" "indexersConfig \<noteq> []"
    and flags: "flagConfigs env w = Inr flags"
    and svc: "getProwlarrService env = None"
    and search: "prowlarr_search env (ref_title (p_audiobook payload))
                   \<lparr>category = 3030, minSeeders = 1, maxResults = 100,
                    indexerIds = map ix_id indexersConfig\<rparr> = Inr searchResults"
    and none: "searchResults = [] \<or>
               filteredResults (rankTorrents env searchResults
                  (ref_title (p_audiobook payload), ref_author (p_audiobook payload))
                  (indexerPriorities indexersConfig) flags) = []"
  shows "\<exists>outcome w' r'.
           processSearchIndexers env payload w = (Inr outcome, w')
         \<and> \<not> out_success outcome
         \<and> request_findUnique (p_requestId payload) (requests w') = Some r'
         \<and> status r' = ''awaiting_search''
         \<and> errorMessage r' =
             Some (if searchResults = [] then ''No torrents found. Will retry automatically.''
                   else ''No quality matches found. Will retry automatically.'')
         \<and> queue w' = queue w
         \<and> settle job (fst (processSearchIndexers env payload w)) = complete job outcome
         \<and> attempts (settle job (fst (processSearchIndexers env payload w))) = attempts job"
proof -
  let ?f = "markSearching env"
  let ?tbl1 = "map (\<lambda>r. if req_id r = p_requestId payload then ?f r else r) (requests w)"
  let ?w1 = "w\<lparr>requests := ?tbl1\<rparr>"
  have f1: "request_findUnique (p_requestId payload) ?tbl1 = Some (?f r)"
    using req by (rule request_findUnique_updated) simp
  have tb: "tryBlock env payload w = afterSearch env payload indexersConfig flags searchResults ?w1"
    using assms(1-8) by (rule tryBlock_reaches_search)
  let ?msg = "if searchResults = [] then ''No torrents found. Will retry automatically.''
                   else ''No quality matches found. Will retry automatically.''"
  let ?tbl2 = "map (\<lambda>r. if req_id r = p_requestId payload then markAwaitingSearch env ?msg r else r) ?tbl1"
  have f2: "request_findUnique (p_requestId payload) ?tbl2 = Some (markAwaitingSearch env ?msg (?f r))"
    using f1 by (rule request_findUnique_updated) simp
  have as: "\<exists>outcome. afterSearch env payload indexersConfig flags searchResults ?w1
              = (Inr outcome, ?w1\<lparr>requests := ?tbl2\<rparr>) \<and> \<not> out_success outcome"
  proof (cases "searchResults = []")
    case True
    then show ?thesis
      using f1 by (simp add: afterSearch_def request_update_found)
  next
    case False
    with none have "filteredResults (rankTorrents env searchResults
                  (ref_title (p_audiobook payload), ref_author (p_audiobook payload))
                  (indexerPriorities indexersConfig) flags) = []" by simp
    with False show ?thesis
      using f1 by (simp add: afterSearch_def request_update_found Let_def)
  qed
  then obtain outcome where o: "afterSearch env payload indexersConfig flags searchResults ?w1
              = (Inr outcome, ?w1\<lparr>requests := ?tbl2\<rparr>)" and ns: "\<not> out_success outcome"
    by blast
  have p: "processSearchIndexers env payload w = (Inr outcome, ?w1\<lparr>requests := ?tbl2\<rparr>)"
    by (simp add: processSearchIndexers_def tb o)
  show ?thesis
    apply (rule exI [of _ outcome])
    apply (rule exI [of _ "?w1\<lparr>requests := ?tbl2\<rparr>"])
    apply (rule exI [of _ "markAwaitingSearch env ?msg (?f r)"])
    using p ns f2 by (simp add: markAwaitingSearch_def settle_def complete_def)
qed


theorem no_qualifying_candidate_awaiting_search_witness:
  "\<exists>outcome w' r'.
       processSearchIndexers env_low_quality payload1 world_configured = (Inr outcome, w')
     \<and> \<not> out_success outcome
     \<and> request_findUnique ''req-1'' (requests w') = Some r'
     \<and> status r' = ''awaiting_search''
     \<and> errorMessage r' = Some ''No quality matches found. Will retry automatically.''
     \<and> attempts (settle job1 (fst (processSearchIndexers env_low_quality payload1 world_configured))) = 0"
proof -
  have h1: "request_findUnique (p_requestId payload1) (requests world_configured) = Some request1"
    by (simp add: request_findUnique_def payload1_def world_configured_def request1_def)
  have h2: "configuration world_configured ''prowlarr_indexers'' = Some ''[{id:1,priority:10}]''"
    by (simp add: world_configured_def)
  have h3: "''[{id:1,priority:10}]'' \<noteq> []" by simp
  have h4: "parseIndexers env_low_quality ''[{id:1,priority:10}]'' = Inr [\<lparr>ix_id = 1, ix_priority = Some 10\<rparr>]"
    by (simp add: env_low_quality_def)
  have h5: "[\<lparr>ix_id = 1, ix_priority = Some 10\<rparr>] \<noteq> []" by simp
  have h6: "flagConfigs env_low_quality world_configured = Inr []"
    by (simp add: flagConfigs_def world_configured_def)
  have h7: "getProwlarrService env_low_quality = None"
    by (simp add: env_low_quality_def)
  have h8: "prowlarr_search env_low_quality (ref_title (p_audiobook payload1))
              \<lparr>category = 3030, minSeeders = 1, maxResults = 100,
               indexerIds = map ix_id [\<lparr>ix_id = 1, ix_priority = Some 10\<rparr>]\<rparr> = Inr [torrent1]"
    by (simp add: env_low_quality_def)
  have h9: "[torrent1] = [] \<or>
            filteredResults (rankTorrents env_low_quality [torrent1]
               (ref_title (p_audiobook payload1), ref_author (p_audiobook payload1))
               (indexerPriorities [\<lparr>ix_id = 1, ix_priority = Some 10\<rparr>]) []) = []"
    by (simp add: env_low_quality_def filteredResults_def ranked1_def)
  from no_qualifying_candidate_awaiting_search [OF h1 h2 h3 h4 h5 h6 h7 h8 h9, of job1]
  obtain outcome w' r' where
      "processSearchIndexers env_low_quality payload1 world_configured = (Inr outcome, w')"
      "\<not> out_success outcome"
      "request_findUnique (p_requestId payload1) (requests w') = Some r'"
      "status r' = ''awaiting_search''"
      "errorMessage r' = Some ''No quality matches found. Will retry automatically.''"
      "attempts (settle job1 (fst (processSearchIndexers env_low_quality payload1 world_configured)))
         = attempts job1"
    by auto
  then show ?thesis
    by (simp add: payload1_def job1_def)
qed

text \<open>
  C4, as the code has it. When the indexer configuration is missing or empty
  (\<open>No indexers configured\<close>) or lists no indexer (\<open>No indexers enabled\<close>), the
  processor, whatever the external services would answer, sets the request's status to
  \<open>failed\<close> and its \<open>errorMessage\<close> to that descriptive message, and throws the error
  again. At the job queue boundary a thrown error is routed to \<open>fail\<close>, so the
  configuration error does use up one attempt of the job.
\<close>

theorem configuration_error_fails_request_and_rethrows:
  assumes req: "request_findUnique (p_requestId payload) (requests w) = Some r"
    and cfg: "configuration w ''prowlarr_indexers'' = None
              \<or> configuration w ''prowlarr_indexers'' = Some []
              \<or> (\<exists>s. s \<noteq> [] \<and> configuration w ''prowlarr_indexers'' = Some s
                      \<and> parseIndexers env s = Inr [])"
  shows "\<exists>m w' r'.
           processSearchIndexers env payload w = (Inl (JsError m), w')
         \<and> m = (if configuration w ''prowlarr_indexers'' = None
                   \<or> configuration w ''prowlarr_indexers'' = Some []
                 then ''No indexers configured. Please configure indexers in settings.''
                 else ''No indexers enabled. Please enable at least one indexer in settings.'')
         \<and> request_findUnique (p_requestId payload) (requests w') = Some r'
         \<and> status r' = ''failed'' \<and> errorMessage r' = Some m
         \<and> queue w' = queue w
         \<and> settle job (fst (processSearchIndexers env payload w)) = fail job (JsError m)
         \<and> attempts (settle job (fst (processSearchIndexers env payload w))) = attempts job + 1"
proof -
  let ?tbl1 = "map (\<lambda>r. if req_id r = p_requestId payload then markSearching env r else r) (requests w)"
  let ?w1 = "w\<lparr>requests := ?tbl1\<rparr>"
  let ?m = "if configuration w ''prowlarr_indexers'' = None
                   \<or> configuration w ''prowlarr_indexers'' = Some []
                 then ''No indexers configured. Please configure indexers in settings.''
                 else ''No indexers enabled. Please enable at least one indexer in settings.''"
  have f1: "request_findUnique (p_requestId payload) ?tbl1 = Some (markSearching env r)"
    using req by (rule request_findUnique_updated) simp
  have tb: "tryBlock env payload w = (Inl (JsError ?m), ?w1)"
    using cfg req by (auto simp: tryBlock_def request_update_found Let_def)
  let ?tbl2 = "map (\<lambda>r. if req_id r = p_requestId payload then markFailed env (JsError ?m) r else r) ?tbl1"
  have f2: "request_findUnique (p_requestId payload) ?tbl2
              = Some (markFailed env (JsError ?m) (markSearching env r))"
    using f1 by (rule request_findUnique_updated) simp
  have p: "processSearchIndexers env payload w = (Inl (JsError ?m), ?w1\<lparr>requests := ?tbl2\<rparr>)"
    using f1 by (simp add: processSearchIndexers_def tb request_update_found)
  show ?thesis
    apply (rule exI [of _ ?m])
    apply (rule exI [of _ "?w1\<lparr>requests := ?tbl2\<rparr>"])
    apply (rule exI [of _ "markFailed env (JsError ?m) (markSearching env r)"])
    using f2 by (simp add: p markFailed_def markSearching_def catchMessage_def settle_def fail_def Let_def)
qed

theorem configuration_error_fails_request_and_rethrows_witness:
  "request_findUnique (p_requestId payload1) (requests world_unconfigured) = Some request1
   \<and> configuration world_unconfigured ''prowlarr_indexers'' = None
   \<and> (\<exists>w' r'.
         processSearchIndexers env_low_quality payload1 world_unconfigured
           = (Inl (JsError ''No indexers configured. Please configure indexers in settings.''), w')
       \<and> request_findUnique (p_requestId payload1) (requests w') = Some r'
       \<and> status r' = ''failed''
       \<and> errorMessage r' = Some ''No indexers configured. Please configure indexers in settings.'')"
proof -
  have h1: "request_findUnique (p_requestId payload1) (requests world_unconfigured) = Some request1"
    by (simp add: request_findUnique_def payload1_def world_unconfigured_def request1_def)
  have h2: "configuration world_unconfigured ''prowlarr_indexers'' = None"
    by (simp add: world_unconfigured_def)
  have h2': "configuration world_unconfigured ''prowlarr_indexers'' = None
              \<or> configuration world_unconfigured ''prowlarr_indexers'' = Some []
              \<or> (\<exists>s. s \<noteq> [] \<and> configuration world_unconfigured ''prowlarr_indexers'' = Some s
                      \<and> parseIndexers env_low_quality s = Inr [])"
    using h2 by simp
  from configuration_error_fails_request_and_rethrows [OF h1 h2', of job1]
  obtain m w' r' where
      "processSearchIndexers env_low_quality payload1 world_unconfigured = (Inl (JsError m), w')"
      "m = (if configuration world_unconfigured ''prowlarr_indexers'' = None
               \<or> configuration world_unconfigured ''prowlarr_indexers'' = Some []
            then ''No indexers configured. Please configure indexers in settings.''
            else ''No indexers enabled. Please enable at least one indexer in settings.'')"
      "request_findUnique (p_requestId payload1) (requests w') = Some r'"
      "status r' = ''failed''" "errorMessage r' = Some m"
    by auto
  with h1 h2 show ?thesis by auto
qed

text \<open>
  C4, as the spec words it, fails: with no indexer configuration the processor throws,
  and the job queue boundary counts the failure as an attempt and queues the job again.
\<close>

theorem configuration_error_counts_as_attempt_counterexample:
  "fst (processSearchIndexers env_low_quality payload1 world_unconfigured)
     = Inl (JsError ''No indexers configured. Please configure indexers in settings.'')
   \<and> attempts job1 = 0
   \<and> attempts (settle job1 (fst (processSearchIndexers env_low_quality payload1 world_unconfigured))) = 1
   \<and> job_status (settle job1 (fst (processSearchIndexers env_low_quality payload1 world_unconfigured)))
       = Queued"
  by (simp add: processSearchIndexers_def tryBlock_def request_update_def request_findUnique_def
      payload1_def world_unconfigured_def request1_def job1_def settle_def fail_def Let_def
      markSearching_def markFailed_def)


section \<open>Properties of the fetch-ebook route\<close>

lemma resetForRetry_id [simp]: "req_id (resetForRetry env r) = req_id r"
  by (simp add: resetForRetry_def)

lemma findExisting_in_set:
  assumes "findExistingEbookRequest parent tbl = Some existing"
  shows "existing \<in> set tbl"
  using assms by (auto simp: findExistingEbookRequest_def find_Some_iff)

lemma request_findUnique_member:
  assumes "r \<in> set tbl"
  shows "\<exists>r'. request_findUnique (req_id r) tbl = Some r'"
proof (cases "request_findUnique (req_id r) tbl")
  case None
  with assms show ?thesis by (auto simp: request_findUnique_def find_None_iff)
next
  case (Some a)
  then show ?thesis by blast
qed

lemma map_req_id_update:
  assumes "\<And>r. req_id (f r) = req_id r"
  shows "map req_id (map (\<lambda>r. if req_id r = rid then f r else r) tbl) = map req_id tbl"
  using assms by (induction tbl) auto

lemma fetchEbook_existing_no_creation:
  assumes "findExistingEbookRequest parent (requests w) = Some existing"
  shows "map req_id (requests (snd (fetchEbook env parent w))) = map req_id (requests w)"
proof -
  obtain r' where "request_findUnique (req_id existing) (requests w) = Some r'"
    using findExisting_in_set [OF assms] request_findUnique_member by blast
  then have "request_update (req_id existing) (resetForRetry env) (requests w)
      = Inr (map (\<lambda>r. if req_id r = req_id existing then resetForRetry env r else r) (requests w))"
    by (rule request_update_found)
  then show ?thesis
    using assms
    by (simp add: fetchEbook_def map_req_id_update split: option.split)
qed

text \<open>
  C5, as the code has it. When the sidecar feature is enabled
  (\<open>ebook_sidecar_enabled\<close> is \<open>true\<close>), the parent request exists with status
  \<open>downloaded\<close> or \<open>available\<close>, and the parent already has a non-deleted ebook request
  whose status is \<open>failed\<close> or \<open>awaiting_search\<close>, the route resets that request to
  \<open>pending\<close> with progress 0 and no error message, enqueues a search job for it and
  answers that the search was retried. And whenever a non-deleted ebook request exists
  for the parent, whatever the rest of the state and whatever the middleware answers, the
  route creates no request: the table holds the same ids afterwards.
\<close>

theorem sidecar_retry_resets_existing:
  "(findExistingEbookRequest parent (requests w) \<noteq> None
      \<longrightarrow> map req_id (requests (snd (POST middleware env parent w))) = map req_id (requests w))
   \<and> (configuration w ''ebook_sidecar_enabled'' = Some ''true''
      \<and> request_findUnique parent (requests w) = Some parentRequest
      \<and> status parentRequest \<in> {''downloaded'', ''available''}
      \<and> findExistingEbookRequest parent (requests w) = Some existing
      \<and> status existing \<in> {''failed'', ''awaiting_search''}
      \<longrightarrow> (\<exists>w'. POST None env parent w
                  = (json (ResultBody True ''E-book search retried'' (req_id existing)) 200, w')
              \<and> requests w' = map (\<lambda>r. if req_id r = req_id existing then resetForRetry env r else r)
                                 (requests w)
              \<and> resetForRetry env existing \<in> set (requests w')
              \<and> status (resetForRetry env existing) = ''pending''
              \<and> progress (resetForRetry env existing) = 0
              \<and> errorMessage (resetForRetry env existing) = None
              \<and> queue w' = queue w @ [searchEbookJob (req_id existing) parentRequest]))"
proof (intro conjI impI)
  assume "findExistingEbookRequest parent (requests w) \<noteq> None"
  then obtain existing where "findExistingEbookRequest parent (requests w) = Some existing"
    by blast
  then show "map req_id (requests (snd (POST middleware env parent w))) = map req_id (requests w)"
    by (cases middleware) (simp_all add: POST_def fetchEbook_existing_no_creation)
next
  assume a: "configuration w ''ebook_sidecar_enabled'' = Some ''true''
      \<and> request_findUnique parent (requests w) = Some parentRequest
      \<and> status parentRequest \<in> {''downloaded'', ''available''}
      \<and> findExistingEbookRequest parent (requests w) = Some existing
      \<and> status existing \<in> {''failed'', ''awaiting_search''}"
  let ?tbl = "map (\<lambda>r. if req_id r = req_id existing then resetForRetry env r else r) (requests w)"
  have mem: "existing \<in> set (requests w)"
    using a findExisting_in_set by blast
  then obtain r' where "request_findUnique (req_id existing) (requests w) = Some r'"
    using request_findUnique_member by blast
  then have upd: "request_update (req_id existing) (resetForRetry env) (requests w) = Inr ?tbl"
    by (rule request_update_found)
  have post: "POST None env parent w
        = (json (ResultBody True ''E-book search retried'' (req_id existing)) 200,
           w\<lparr>requests := ?tbl, queue := queue w @ [searchEbookJob (req_id existing) parentRequest]\<rparr>)"
    using a by (auto simp: POST_def fetchEbook_def upd)
  have inset: "resetForRetry env existing \<in> set ?tbl"
    using mem by force
  show "\<exists>w'. POST None env parent w
                  = (json (ResultBody True ''E-book search retried'' (req_id existing)) 200, w')
              \<and> requests w' = ?tbl
              \<and> resetForRetry env existing \<in> set (requests w')
              \<and> status (resetForRetry env existing) = ''pending''
              \<and> progress (resetForRetry env existing) = 0
              \<and> errorMessage (resetForRetry env existing) = None
              \<and> queue w' = queue w @ [searchEbookJob (req_id existing) parentRequest]"
    using post inset by (simp add: resetForRetry_def)
qed

theorem sidecar_retry_resets_existing_witness:
  "configuration world_sidecar_failed ''ebook_sidecar_enabled'' = Some ''true''
   \<and> request_findUnique ''req-1'' (requests world_sidecar_failed) = Some parent1
   \<and> status parent1 = ''available''
   \<and> findExistingEbookRequest ''req-1'' (requests world_sidecar_failed) = Some sidecar1
   \<and> status sidecar1 = ''failed''
   \<and> (\<exists>w'. POST None route_env1 ''req-1'' world_sidecar_failed
               = (json (ResultBody True ''E-book search retried'' ''req-2'') 200, w')
          \<and> requests w' = [parent1, resetForRetry route_env1 sidecar1]
          \<and> queue w' = [searchEbookJob ''req-2'' parent1])
   \<and> map req_id (requests (snd (POST None route_env1 ''req-1'' world_sidecar_failed)))
       = [''req-1'', ''req-2'']"
proof -
  have h1: "configuration world_sidecar_failed ''ebook_sidecar_enabled'' = Some ''true''"
    by (simp add: world_sidecar_failed_def sidecar_enabled_def)
  have h2: "request_findUnique ''req-1'' (requests world_sidecar_failed) = Some parent1"
    by (simp add: request_findUnique_def world_sidecar_failed_def parent1_def)
  have h3: "status parent1 = ''available''" by (simp add: parent1_def)
  have h4: "findExistingEbookRequest ''req-1'' (requests world_sidecar_failed) = Some sidecar1"
    by (simp add: findExistingEbookRequest_def world_sidecar_failed_def parent1_def sidecar1_def)
  have h5: "status sidecar1 = ''failed''" by (simp add: sidecar1_def)
  have ids: "req_id parent1 = ''req-1''" "req_id sidecar1 = ''req-2''"
    by (simp_all add: parent1_def sidecar1_def)
  from sidecar_retry_resets_existing
         [of "''req-1''" world_sidecar_failed None route_env1 parent1 sidecar1] h1 h2 h3 h4 h5
  obtain w' where
      "POST None route_env1 ''req-1'' world_sidecar_failed
         = (json (ResultBody True ''E-book search retried'' (req_id sidecar1)) 200, w')"
      "requests w' = map (\<lambda>r. if req_id r = req_id sidecar1 then resetForRetry route_env1 r else r)
                        (requests world_sidecar_failed)"
      "queue w' = queue world_sidecar_failed @ [searchEbookJob (req_id sidecar1) parent1]"
    by auto
  then have a: "\<exists>w'. POST None route_env1 ''req-1'' world_sidecar_failed
               = (json (ResultBody True ''E-book search retried'' ''req-2'') 200, w')
          \<and> requests w' = [parent1, resetForRetry route_env1 sidecar1]
          \<and> queue w' = [searchEbookJob ''req-2'' parent1]"
    by (simp add: ids world_sidecar_failed_def)
  from sidecar_retry_resets_existing [of "''req-1''" world_sidecar_failed None route_env1] h4
  have "map req_id (requests (snd (POST None route_env1 ''req-1'' world_sidecar_failed)))
          = map req_id (requests world_sidecar_failed)"
    by simp
  then have b: "map req_id (requests (snd (POST None route_env1 ''req-1'' world_sidecar_failed)))
          = [''req-1'', ''req-2'']"
    by (simp add: ids world_sidecar_failed_def)
  from h1 h2 h3 h4 h5 a b show ?thesis by blast
qed

text \<open>
  C5, as the spec words it, fails when the route's first guard rejects the call: with
  the sidecar feature disabled, a parent with a failed, non-deleted ebook request gets
  the answer 400, the ebook request stays failed and no job is enqueued.
\<close>

theorem sidecar_retry_disabled_counterexample:
  "findExistingEbookRequest ''req-1'' (requests world_sidecar_disabled) = Some sidecar1
   \<and> deletedAt sidecar1 = None
   \<and> status sidecar1 = ''failed''
   \<and> POST None route_env1 ''req-1'' world_sidecar_disabled
       = (json (ErrorBody ''E-book sidecar feature is not enabled'') 400, world_sidecar_disabled)
   \<and> request_findUnique ''req-2'' (requests world_sidecar_disabled) = Some sidecar1
   \<and> queue world_sidecar_disabled = []"
  by (simp add: POST_def fetchEbook_def findExistingEbookRequest_def request_findUnique_def
      world_sidecar_disabled_def parent1_def sidecar1_def)

text \<open>
  C6. When the parent request does not exist, or exists with a status other than
  \<open>downloaded\<close> and \<open>available\<close>, the route leaves the whole store as it was (no
  request is created, none is changed, no job is enqueued), and the handler answers with
  an error body and status 400 or 404.
\<close>

theorem sidecar_requires_completed_parent:
  assumes "request_findUnique parent (requests w) = None
           \<or> (\<exists>p. request_findUnique parent (requests w) = Some p
                  \<and> status p \<notin> {''downloaded'', ''available''})"
  shows "snd (POST middleware env parent w) = w
       \<and> requests (snd (POST middleware env parent w)) = requests w
       \<and> http_status (fst (POST None env parent w)) \<in> {400, 404}
       \<and> (\<exists>msg. body (fst (POST None env parent w)) = ErrorBody msg)"
proof -
  have f: "snd (fetchEbook env parent w) = w
         \<and> http_status (fst (fetchEbook env parent w)) \<in> {400, 404}
         \<and> (\<exists>msg. body (fst (fetchEbook env parent w)) = ErrorBody msg)"
    using assms by (auto simp: fetchEbook_def json_def)
  then show ?thesis
    by (cases middleware) (auto simp: POST_def)
qed

theorem sidecar_requires_completed_parent_witness:
  "(\<exists>p. request_findUnique ''req-1'' (requests world_parent_downloading) = Some p
        \<and> status p \<notin> {''downloaded'', ''available''})
   \<and> snd (POST None route_env1 ''req-1'' world_parent_downloading) = world_parent_downloading
   \<and> http_status (fst (POST None route_env1 ''req-1'' world_parent_downloading)) = 400
   \<and> request_findUnique ''req-9'' (requests world_parent_downloading) = None
   \<and> snd (POST None route_env1 ''req-9'' world_parent_downloading) = world_parent_downloading"
proof -
  have h: "\<exists>p. request_findUnique ''req-1'' (requests world_parent_downloading) = Some p
        \<and> status p \<notin> {''downloaded'', ''available''}"
    by (simp add: request_findUnique_def world_parent_downloading_def parent1_def)
  have h9: "request_findUnique ''req-9'' (requests world_parent_downloading) = None"
    by (simp add: request_findUnique_def world_parent_downloading_def parent1_def)
  have c: "http_status (fst (POST None route_env1 ''req-1'' world_parent_downloading)) = 400"
    by (simp add: POST_def fetchEbook_def json_def request_findUnique_def
        world_parent_downloading_def parent1_def sidecar_enabled_def)
  from sidecar_requires_completed_parent [of "''req-1''" world_parent_downloading None route_env1] h
  have a: "snd (POST None route_env1 ''req-1'' world_parent_downloading) = world_parent_downloading"
    by blast
  from sidecar_requires_completed_parent [of "''req-9''" world_parent_downloading None route_env1] h9
  have b: "snd (POST None route_env1 ''req-9'' world_parent_downloading) = world_parent_downloading"
    by blast
  from h h9 a b c show ?thesis by blast
qed

section \<open>Properties of the ranking engine\<close>

lemma set_insertRanked: "set (insertRanked r xs) = insert r (set xs)"
  by (induction xs) auto

lemma set_rank:
  "set (rank sc candidates target sourcePriorities bonusRules)
     = rankOne sc target sourcePriorities bonusRules ` set candidates"
  unfolding rank_def
  by (induction candidates) (auto simp: set_insertRanked)

lemma rank_final_is_sum:
  assumes "r \<in> set (rank sc candidates target sourcePriorities bonusRules)"
  shows "finalScore r = score r + bonusPoints r"
  using assms by (auto simp: set_rank rankOne_def Let_def)







lemma seederScore_9: "seederScore 9 = 6"
  by (simp add: seederScore_def)

lemma seederScore_999: "seederScore 999 = 15"
proof -
  have "log 10 (1000::real) = log 10 (10 ^ 3)" by simp
  also have "\<dots> = 3" by (subst log_pow_cancel) simp_all
  finally show ?thesis by (simp add: seederScore_def)
qed



text \<open>
  C8. The seed stage awards \<open>min(15, log10(seedCount + 1) * 6)\<close>: it is monotone in the
  seed count, lies between 0 and 15, and is 0 for no seed, 6 for 9 seeds and 15 for 999
  seeds.
\<close>

theorem seed_score_formula:
  "seederScore n = min 15 (log 10 (real n + 1) * 6)
   \<and> (m \<le> n \<longrightarrow> seederScore m \<le> seederScore n)
   \<and> 0 \<le> seederScore n \<and> seederScore n \<le> 15
   \<and> seederScore 0 = 0 \<and> seederScore 9 = 6 \<and> seederScore 999 = 15"
proof -
  have mono: "m \<le> n \<longrightarrow> seederScore m \<le> seederScore n"
    by (simp add: seederScore_def min_le_iff_disj)
  have nonneg: "0 \<le> seederScore n"
    by (simp add: seederScore_def)
  have "seederScore 0 = 0" by (simp add: seederScore_def)
  with mono nonneg seederScore_9 seederScore_999 show ?thesis
    by (simp add: seederScore_def)
qed

theorem seed_score_formula_witness:
  "(9::nat) \<le> 999 \<and> seederScore 9 \<le> seederScore 999
   \<and> seederScore 9 = 6 \<and> seederScore 999 = 15"
  using seed_score_formula [of 999 9] by simp


end
